theory Spec2Isabelle
  imports Main "HOL-Library.Sublist"
begin

section \<open>Data model of ssl_utils.cc\<close>

text \<open>
  Byte buffers (a \<^verbatim>\<open>grpc_slice\<close>, or a \<^verbatim>\<open>char*\<close> with its length) are character
  lists. A \<^verbatim>\<open>const char*\<close> that may be null is a \<open>string option\<close>, with \<open>None\<close> the
  null pointer. Sizes (\<^verbatim>\<open>size_t\<close>) count objects held in memory and are natural
  numbers.
\<close>

type_synonym bytes = string

text \<open>
  The ways a call can fail to return: a \<^verbatim>\<open>GPR_ASSERT\<close> that aborts the process, an
  access past the end of an array, and a read of an array slot that was never written.
\<close>

datatype error = AssertionFailed | OutOfBounds | UninitialisedRead

datatype grpc_error = GRPC_ERROR_NONE | GRPC_ERROR_CREATE string

datatype grpc_security_status = GRPC_SECURITY_OK | GRPC_SECURITY_ERROR

text \<open>
  The property-name macros come from headers that are not part of this file
  (\<^verbatim>\<open>grpc_security_constants.h\<close>, \<^verbatim>\<open>transport_security_interface.h\<close>,
  \<^verbatim>\<open>ssl_transport_security.h\<close>). They are parameters of the model: one record holds the
  string each macro expands to.
\<close>

record prop_names =
  GRPC_TRANSPORT_SECURITY_TYPE_PROPERTY_NAME :: string
  GRPC_SSL_TRANSPORT_SECURITY_TYPE :: string
  GRPC_X509_CN_PROPERTY_NAME :: string
  GRPC_X509_SAN_PROPERTY_NAME :: string
  GRPC_X509_PEM_CERT_PROPERTY_NAME :: string
  GRPC_SSL_SESSION_REUSED_PROPERTY :: string
  TSI_X509_SUBJECT_COMMON_NAME_PEER_PROPERTY :: string
  TSI_X509_SUBJECT_ALTERNATIVE_NAME_PEER_PROPERTY :: string
  TSI_X509_PEM_CERT_PROPERTY :: string
  TSI_SSL_SESSION_REUSED_PEER_PROPERTY :: string

text \<open>
  The names on each side are pairwise different strings; the theorems that depend on
  it say so.
\<close>

definition names_distinct :: "prop_names \<Rightarrow> bool" where
  "names_distinct K =
     (distinct [TSI_X509_SUBJECT_COMMON_NAME_PEER_PROPERTY K,
                TSI_X509_SUBJECT_ALTERNATIVE_NAME_PEER_PROPERTY K,
                TSI_X509_PEM_CERT_PROPERTY K,
                TSI_SSL_SESSION_REUSED_PEER_PROPERTY K] \<and>
      distinct [GRPC_TRANSPORT_SECURITY_TYPE_PROPERTY_NAME K,
                GRPC_X509_CN_PROPERTY_NAME K,
                GRPC_X509_SAN_PROPERTY_NAME K,
                GRPC_X509_PEM_CERT_PROPERTY_NAME K,
                GRPC_SSL_SESSION_REUSED_PROPERTY K])"

text \<open>The strings the macros have in gRPC's headers, used for the concrete instances.\<close>

definition grpc_names :: prop_names where
  "grpc_names =
     \<lparr>GRPC_TRANSPORT_SECURITY_TYPE_PROPERTY_NAME = ''transport_security_type'',
      GRPC_SSL_TRANSPORT_SECURITY_TYPE = ''ssl'',
      GRPC_X509_CN_PROPERTY_NAME = ''x509_common_name'',
      GRPC_X509_SAN_PROPERTY_NAME = ''x509_subject_alternative_name'',
      GRPC_X509_PEM_CERT_PROPERTY_NAME = ''x509_pem_cert'',
      GRPC_SSL_SESSION_REUSED_PROPERTY = ''ssl_session_reused'',
      TSI_X509_SUBJECT_COMMON_NAME_PEER_PROPERTY = ''x509_subject_common_name'',
      TSI_X509_SUBJECT_ALTERNATIVE_NAME_PEER_PROPERTY = ''x509_subject_alternative_name'',
      TSI_X509_PEM_CERT_PROPERTY = ''x509_pem_cert'',
      TSI_SSL_SESSION_REUSED_PEER_PROPERTY = ''ssl_session_reused''\<rparr>"

subsection \<open>Peers\<close>

text \<open>
  \<^verbatim>\<open>tsi_peer_property\<close>: a name (possibly null) and a value buffer. \<^verbatim>\<open>tsi_peer\<close>: the
  array \<^verbatim>\<open>properties\<close> and \<^verbatim>\<open>property_count\<close>. The array is a list of slots; a slot
  that was allocated and never written is \<open>None\<close>, and the null array pointer is the
  list with no slot.
\<close>

record tsi_peer_property =
  tsi_name :: "string option"
  tsi_value :: bytes

record tsi_peer =
  properties :: "tsi_peer_property option list"
  property_count :: nat

text \<open>Reading \<^verbatim>\<open>peer->properties[i]\<close>.\<close>

definition read_property :: "tsi_peer \<Rightarrow> nat \<Rightarrow> error + tsi_peer_property" where
  "read_property peer i =
     (if i < length (properties peer)
      then (case properties peer ! i of
              None \<Rightarrow> Inl UninitialisedRead
            | Some p \<Rightarrow> Inr p)
      else Inl OutOfBounds)"

text \<open>
  A peer as the engine hands it over: \<^verbatim>\<open>property_count\<close> slots of the array exist and
  every one of them is written.
\<close>

definition peer_ok :: "tsi_peer \<Rightarrow> bool" where
  "peer_ok peer =
     (property_count peer \<le> length (properties peer) \<and>
      list_all (\<lambda>s. s \<noteq> None) (take (property_count peer) (properties peer)))"

text \<open>The properties of a peer, in order: the first \<^verbatim>\<open>property_count\<close> slots.\<close>

definition peer_props :: "tsi_peer \<Rightarrow> tsi_peer_property list" where
  "peer_props peer = map the (take (property_count peer) (properties peer))"

subsection \<open>Authentication contexts\<close>

text \<open>
  Modelled from the spec: \<^verbatim>\<open>grpc_auth_context\<close> and its operations live in
  \<^verbatim>\<open>security_context.h\<close>, which is not part of this file. The spec's AuthContext owns
  an ordered collection of (name, value) properties and at most one designated peer
  identity property name, which refers to a property that is present; properties are
  added at the end, and the iterator yields them in insertion order.
\<close>

record grpc_auth_property =
  auth_name :: string
  auth_value :: bytes

record grpc_auth_context =
  ctx_properties :: "grpc_auth_property list"
  ctx_peer_identity_property_name :: "string option"

definition MakeRefCounted_grpc_auth_context :: grpc_auth_context where
  "MakeRefCounted_grpc_auth_context =
     \<lparr>ctx_properties = [], ctx_peer_identity_property_name = None\<rparr>"

definition grpc_auth_context_add_property ::
  "grpc_auth_context \<Rightarrow> string \<Rightarrow> bytes \<Rightarrow> grpc_auth_context" where
  "grpc_auth_context_add_property ctx n v =
     ctx\<lparr>ctx_properties := ctx_properties ctx @ [\<lparr>auth_name = n, auth_value = v\<rparr>]\<rparr>"

definition grpc_auth_context_add_cstring_property ::
  "grpc_auth_context \<Rightarrow> string \<Rightarrow> string \<Rightarrow> grpc_auth_context" where
  "grpc_auth_context_add_cstring_property ctx n v = grpc_auth_context_add_property ctx n v"

text \<open>
  Designating the identity: 1 and the name is set when a property of that name is
  present, 0 and nothing changes otherwise.
\<close>

definition grpc_auth_context_set_peer_identity_property_name ::
  "grpc_auth_context \<Rightarrow> string \<Rightarrow> int \<times> grpc_auth_context" where
  "grpc_auth_context_set_peer_identity_property_name ctx n =
     (case find (\<lambda>p. auth_name p = n) (ctx_properties ctx) of
        None \<Rightarrow> (0, ctx)
      | Some p \<Rightarrow> (1, ctx\<lparr>ctx_peer_identity_property_name := Some (auth_name p)\<rparr>))"

text \<open>The property iterator of a context: the properties still to be visited.\<close>

definition grpc_auth_context_property_iterator ::
  "grpc_auth_context \<Rightarrow> grpc_auth_property list" where
  "grpc_auth_context_property_iterator ctx = ctx_properties ctx"

section \<open>Peer to authentication context\<close>

text \<open>
  The body of the loop of \<^verbatim>\<open>grpc_ssl_peer_to_auth_context\<close> for one property. The state
  is the context under construction and the local \<^verbatim>\<open>peer_identity_property_name\<close>.
\<close>

definition peer_to_auth_step ::
  "prop_names \<Rightarrow> tsi_peer_property \<Rightarrow> grpc_auth_context \<times> string option \<Rightarrow>
   grpc_auth_context \<times> string option" where
  "peer_to_auth_step K prop s =
     (case s of (ctx, peer_identity_property_name) \<Rightarrow>
       (case tsi_name prop of
          None \<Rightarrow> (ctx, peer_identity_property_name)
        | Some n \<Rightarrow>
            if n = TSI_X509_SUBJECT_COMMON_NAME_PEER_PROPERTY K then
              (grpc_auth_context_add_property ctx (GRPC_X509_CN_PROPERTY_NAME K) (tsi_value prop),
               (if peer_identity_property_name = None
                then Some (GRPC_X509_CN_PROPERTY_NAME K)
                else peer_identity_property_name))
            else if n = TSI_X509_SUBJECT_ALTERNATIVE_NAME_PEER_PROPERTY K then
              (grpc_auth_context_add_property ctx (GRPC_X509_SAN_PROPERTY_NAME K) (tsi_value prop),
               Some (GRPC_X509_SAN_PROPERTY_NAME K))
            else if n = TSI_X509_PEM_CERT_PROPERTY K then
              (grpc_auth_context_add_property ctx (GRPC_X509_PEM_CERT_PROPERTY_NAME K)
                 (tsi_value prop),
               peer_identity_property_name)
            else if n = TSI_SSL_SESSION_REUSED_PEER_PROPERTY K then
              (grpc_auth_context_add_property ctx (GRPC_SSL_SESSION_REUSED_PROPERTY K)
                 (tsi_value prop),
               peer_identity_property_name)
            else (ctx, peer_identity_property_name)))"

text \<open>The loop \<^verbatim>\<open>for (i = 0; i < peer->property_count; i++)\<close>, from index \<open>i\<close> on.\<close>

function peer_to_auth_loop ::
  "prop_names \<Rightarrow> tsi_peer \<Rightarrow> nat \<Rightarrow> grpc_auth_context \<times> string option \<Rightarrow>
   error + (grpc_auth_context \<times> string option)" where
  "peer_to_auth_loop K peer i s =
     (if i < property_count peer
      then (case read_property peer i of
              Inl e \<Rightarrow> Inl e
            | Inr prop \<Rightarrow> peer_to_auth_loop K peer (Suc i) (peer_to_auth_step K prop s))
      else Inr s)"
  by pat_completeness auto
termination
  by (relation "measure (\<lambda>(K, peer, i, s). property_count peer - i)") auto

declare peer_to_auth_loop.simps [simp del]

definition grpc_ssl_peer_to_auth_context ::
  "prop_names \<Rightarrow> tsi_peer \<Rightarrow> error + grpc_auth_context" where
  "grpc_ssl_peer_to_auth_context K peer =
     (if \<not> property_count peer \<ge> 1 then Inl AssertionFailed
      else
        let ctx = MakeRefCounted_grpc_auth_context;
            ctx = grpc_auth_context_add_cstring_property ctx
                    (GRPC_TRANSPORT_SECURITY_TYPE_PROPERTY_NAME K)
                    (GRPC_SSL_TRANSPORT_SECURITY_TYPE K)
        in (case peer_to_auth_loop K peer 0 (ctx, None) of
              Inl e \<Rightarrow> Inl e
            | Inr (ctx, peer_identity_property_name) \<Rightarrow>
                (case peer_identity_property_name of
                   None \<Rightarrow> Inr ctx
                 | Some n \<Rightarrow>
                     (case grpc_auth_context_set_peer_identity_property_name ctx n of
                        (r, ctx') \<Rightarrow> if r = 1 then Inr ctx' else Inl AssertionFailed))))"

section \<open>Authentication context to shallow peer\<close>

text \<open>
  \<^verbatim>\<open>add_shallow_auth_property_to_peer\<close> writes the slot at index \<^verbatim>\<open>property_count\<close>
  and increments the count. The value buffer is the context's own (no copy), which a
  model of values does not distinguish from a copy.
\<close>

definition add_shallow_auth_property_to_peer ::
  "tsi_peer \<Rightarrow> grpc_auth_property \<Rightarrow> string \<Rightarrow> error + tsi_peer" where
  "add_shallow_auth_property_to_peer peer prop tsi_prop_name =
     (if property_count peer < length (properties peer)
      then Inr (peer\<lparr>properties :=
                       (properties peer)[property_count peer :=
                          Some \<lparr>tsi_name = Some tsi_prop_name, tsi_value = auth_value prop\<rparr>],
                     property_count := Suc (property_count peer)\<rparr>)
      else Inl OutOfBounds)"

text \<open>The first pass: \<^verbatim>\<open>while (grpc_auth_property_iterator_next(&it) != nullptr) max_num_props++\<close>.\<close>

fun count_props :: "grpc_auth_property list \<Rightarrow> nat \<Rightarrow> nat" where
  "count_props [] max_num_props = max_num_props"
| "count_props (prop # it) max_num_props = count_props it (Suc max_num_props)"

text \<open>The second pass over the iterator.\<close>

fun shallow_loop ::
  "prop_names \<Rightarrow> grpc_auth_property list \<Rightarrow> tsi_peer \<Rightarrow> error + tsi_peer" where
  "shallow_loop K [] peer = Inr peer"
| "shallow_loop K (prop # it) peer =
     (if auth_name prop = GRPC_X509_SAN_PROPERTY_NAME K then
        (case add_shallow_auth_property_to_peer peer prop
                (TSI_X509_SUBJECT_ALTERNATIVE_NAME_PEER_PROPERTY K) of
           Inl e \<Rightarrow> Inl e
         | Inr peer' \<Rightarrow> shallow_loop K it peer')
      else if auth_name prop = GRPC_X509_CN_PROPERTY_NAME K then
        (case add_shallow_auth_property_to_peer peer prop
                (TSI_X509_SUBJECT_COMMON_NAME_PEER_PROPERTY K) of
           Inl e \<Rightarrow> Inl e
         | Inr peer' \<Rightarrow> shallow_loop K it peer')
      else if auth_name prop = GRPC_X509_PEM_CERT_PROPERTY_NAME K then
        (case add_shallow_auth_property_to_peer peer prop (TSI_X509_PEM_CERT_PROPERTY K) of
           Inl e \<Rightarrow> Inl e
         | Inr peer' \<Rightarrow> shallow_loop K it peer')
      else shallow_loop K it peer)"

definition grpc_shallow_peer_from_ssl_auth_context ::
  "prop_names \<Rightarrow> grpc_auth_context \<Rightarrow> error + tsi_peer" where
  "grpc_shallow_peer_from_ssl_auth_context K auth_context =
     (let peer = \<lparr>properties = [], property_count = 0\<rparr>;
          max_num_props = count_props (grpc_auth_context_property_iterator auth_context) 0
      in if max_num_props > 0
         then shallow_loop K (grpc_auth_context_property_iterator auth_context)
                (peer\<lparr>properties := replicate max_num_props None\<rparr>)
         else Inr peer)"


section \<open>Name matching\<close>

text \<open>
  \<^verbatim>\<open>grpc_core::SplitHostPort\<close> (\<^verbatim>\<open>host_port.h\<close>) and the engine's
  \<^verbatim>\<open>tsi_ssl_peer_matches_name\<close> (\<^verbatim>\<open>ssl_transport_security.h\<close>) are not part of this
  file; \<^verbatim>\<open>grpc_ssl_host_matches_name\<close> takes both as parameters. The first gives the
  host and the port it leaves in its two output views, which are empty before the call;
  the second gives the engine's \<^verbatim>\<open>int\<close> verdict.
\<close>

type_synonym split_host_port = "string \<Rightarrow> string \<times> string"

type_synonym peer_matcher = "tsi_peer \<Rightarrow> string \<Rightarrow> int"

text \<open>\<^verbatim>\<open>StringView::find(c)\<close>: the index of the first occurrence, \<open>None\<close> for \<^verbatim>\<open>npos\<close>.\<close>

definition StringView_find :: "string \<Rightarrow> char \<Rightarrow> nat option" where
  "StringView_find s c =
     (if c \<in> set s then Some (length (takeWhile (\<lambda>x. x \<noteq> c) s)) else None)"

text \<open>\<^verbatim>\<open>StringView::remove_suffix(n)\<close>: the view without its last \<open>n\<close> characters.\<close>

definition remove_suffix :: "string \<Rightarrow> nat \<Rightarrow> string" where
  "remove_suffix s n = take (length s - n) s"

definition grpc_ssl_host_matches_name ::
  "split_host_port \<Rightarrow> peer_matcher \<Rightarrow> tsi_peer \<Rightarrow> string \<Rightarrow> int" where
  "grpc_ssl_host_matches_name SplitHostPort tsi_ssl_peer_matches_name peer peer_name =
     (case SplitHostPort peer_name of
        (allocated_name, ignored_port) \<Rightarrow>
          if allocated_name = [] then 0
          else
            let zone_id = StringView_find allocated_name (CHR ''%'');
                allocated_name =
                  (case zone_id of
                     Some z \<Rightarrow> remove_suffix allocated_name (length allocated_name - z)
                   | None \<Rightarrow> allocated_name)
            in tsi_ssl_peer_matches_name peer allocated_name)"

text \<open>
  Modelled from the spec: \<^verbatim>\<open>SplitHostPort\<close> itself is missing from the sources. The
  spec's \<open>splitHostPort\<close> parses a \<open>host[:port]\<close> or bracketed-IPv6 string and strips
  exactly the trailing \<open>:port\<close>; on malformed input it returns the original string as
  host with an empty port. Used only for the concrete names below; the theorems about
  \<^verbatim>\<open>grpc_ssl_host_matches_name\<close> hold for every split function.
\<close>

definition spec_splitHostPort :: split_host_port where
  "spec_splitHostPort name =
     (case name of
        [] \<Rightarrow> ([], [])
      | c # rest \<Rightarrow>
          if c = CHR ''[''
          then (case dropWhile (\<lambda>x. x \<noteq> CHR '']'') rest of
                  [] \<Rightarrow> (name, [])
                | [b] \<Rightarrow> (takeWhile (\<lambda>x. x \<noteq> CHR '']'') rest, [])
                | b # d # port \<Rightarrow>
                    if d = CHR '':''
                    then (takeWhile (\<lambda>x. x \<noteq> CHR '']'') rest, port)
                    else (name, []))
          else if length (filter (\<lambda>x. x = CHR '':'') name) = 1
          then (takeWhile (\<lambda>x. x \<noteq> CHR '':'') name,
                drop 1 (dropWhile (\<lambda>x. x \<noteq> CHR '':'') name))
          else (name, []))"

text \<open>Two stand-ins for the engine: one accepts every name, one rejects every name.\<close>

definition matches_every_name :: peer_matcher where
  "matches_every_name peer host = 1"

definition matches_no_name :: peer_matcher where
  "matches_no_name peer host = 0"

section \<open>Peer checks\<close>

definition grpc_ssl_check_alpn :: "tsi_peer \<Rightarrow> grpc_error" where
  "grpc_ssl_check_alpn peer = GRPC_ERROR_NONE"

text \<open>
  The local \<^verbatim>\<open>status\<close> of \<^verbatim>\<open>grpc_ssl_check_call_host\<close> once both tests have run, for
  the shallow peer built from the context.
\<close>

definition call_host_status ::
  "split_host_port \<Rightarrow> peer_matcher \<Rightarrow> tsi_peer \<Rightarrow> string \<Rightarrow> string \<Rightarrow> string \<Rightarrow>
   grpc_security_status" where
  "call_host_status SplitHostPort tsi_ssl_peer_matches_name peer host target_name
     overridden_target_name =
     (let status = GRPC_SECURITY_ERROR;
          status = (if grpc_ssl_host_matches_name SplitHostPort tsi_ssl_peer_matches_name peer host \<noteq> 0
                    then GRPC_SECURITY_OK else status);
          status = (if overridden_target_name \<noteq> [] \<and> host = target_name
                    then GRPC_SECURITY_OK else status)
      in status)"

text \<open>
  \<^verbatim>\<open>grpc_ssl_check_call_host\<close>. The result pairs the returned \<^verbatim>\<open>bool\<close> with the
  content of \<^verbatim>\<open>*error\<close> after the call; \<open>err\<close> is its content before. The closure
  \<^verbatim>\<open>on_call_host_checked\<close> is not used by the function, and
  \<^verbatim>\<open>grpc_shallow_peer_destruct\<close> only frees the array of the shallow peer.
\<close>

definition grpc_ssl_check_call_host ::
  "prop_names \<Rightarrow> split_host_port \<Rightarrow> peer_matcher \<Rightarrow> string \<Rightarrow> string \<Rightarrow> string \<Rightarrow>
   grpc_auth_context \<Rightarrow> 'closure \<Rightarrow> grpc_error \<Rightarrow> error + (bool \<times> grpc_error)" where
  "grpc_ssl_check_call_host K SplitHostPort tsi_ssl_peer_matches_name host target_name
     overridden_target_name auth_context on_call_host_checked err =
     (case grpc_shallow_peer_from_ssl_auth_context K auth_context of
        Inl e \<Rightarrow> Inl e
      | Inr peer \<Rightarrow>
          let status = call_host_status SplitHostPort tsi_ssl_peer_matches_name peer host
                         target_name overridden_target_name;
              err = (if status \<noteq> GRPC_SECURITY_OK
                     then GRPC_ERROR_CREATE ''call host does not match SSL server name''
                     else err)
          in Inr (True, err))"

section \<open>Default SSL root store\<close>

datatype grpc_ssl_roots_override_result =
  GRPC_SSL_ROOTS_OVERRIDE_OK
| GRPC_SSL_ROOTS_OVERRIDE_FAIL_PERMANENTLY
| GRPC_SSL_ROOTS_OVERRIDE_FAIL

text \<open>
  The calls \<^verbatim>\<open>ComputePemRootCerts\<close> makes to the outside, in the order it makes them:
  loading the configured file, the override callback, the OS trust store, loading the
  installed file.
\<close>

datatype io_event =
  LoadConfiguredFile string
| OverrideCallback
| SystemRootCerts
| LoadInstalledFile string

datatype tsi_result = TSI_OK | TSI_FAILED nat

text \<open>Objects of the engine (root store, session cache, handshaker factory) are handles.\<close>

type_synonym handle = nat

record tsi_ssl_pem_key_cert_pair =
  private_key :: "string option"
  cert_chain :: "string option"

record tsi_ssl_client_handshaker_options =
  opt_pem_key_cert_pair :: "tsi_ssl_pem_key_cert_pair option"
  opt_pem_root_certs :: "bytes option"
  opt_root_store :: "handle option"
  opt_alpn_protocols :: "string list"
  opt_num_alpn_protocols :: nat
  opt_cipher_suites :: "string option"
  opt_session_cache :: "handle option"

text \<open>
  What the file reads from outside itself: the two configuration variables and the
  cipher-suite variable, the build-time path of the installed roots, the callback
  pointer \<^verbatim>\<open>ssl_roots_override_cb\<close> (\<open>None\<close> is the null pointer; a callback is what it
  returns and what it stores in \<^verbatim>\<open>*pem_root_certs\<close>), and the functions defined
  elsewhere: \<^verbatim>\<open>grpc_load_file\<close> (path and the null-terminator flag),
  \<^verbatim>\<open>LoadSystemRootCerts\<close>, \<^verbatim>\<open>tsi_ssl_root_certs_store_create\<close>, the ALPN version table,
  and the engine's factory constructor, which gets the options and the current content
  of the output pointer and gives its result and the new content.
\<close>

record environment =
  grpc_default_ssl_roots_file_path :: string
  grpc_not_use_system_ssl_roots :: bool
  grpc_ssl_cipher_suites :: string
  installed_roots_path :: string
  ssl_roots_override_cb :: "(grpc_ssl_roots_override_result \<times> string option) option"
  grpc_load_file :: "string \<Rightarrow> bool \<Rightarrow> grpc_error + bytes"
  LoadSystemRootCerts :: bytes
  tsi_ssl_root_certs_store_create :: "bytes \<Rightarrow> handle option"
  grpc_chttp2_num_alpn_versions :: nat
  grpc_chttp2_get_alpn_version_index :: "nat \<Rightarrow> string"
  tsi_create_ssl_client_handshaker_factory_with_options ::
    "tsi_ssl_client_handshaker_options \<Rightarrow> handle option \<Rightarrow> tsi_result \<times> handle option"

definition grpc_set_ssl_roots_override_callback ::
  "(grpc_ssl_roots_override_result \<times> string option) option \<Rightarrow> environment \<Rightarrow> environment" where
  "grpc_set_ssl_roots_override_callback cb E = E\<lparr>ssl_roots_override_cb := cb\<rparr>"

text \<open>
  \<^verbatim>\<open>GRPC_LOG_IF_ERROR("load_file", grpc_load_file(path, 1, &result))\<close>: a failure is
  logged and leaves no bytes. Both calls are made with an empty \<^verbatim>\<open>result\<close>.
\<close>

definition load_file_or_empty :: "environment \<Rightarrow> string \<Rightarrow> bytes" where
  "load_file_or_empty E path =
     (case grpc_load_file E path True of Inl e \<Rightarrow> [] | Inr b \<Rightarrow> b)"

text \<open>
  \<^verbatim>\<open>DefaultSslRootStore::ComputePemRootCerts\<close>: the slice it returns and the outside
  calls it made. A callback that reports success and leaves a null pointer fails the
  assertion.
\<close>

definition ComputePemRootCerts :: "environment \<Rightarrow> error + (bytes \<times> io_event list)" where
  "ComputePemRootCerts E =
     (let not_use_system_roots = grpc_not_use_system_ssl_roots E;
          default_root_certs_path = grpc_default_ssl_roots_file_path E;
          (result, log) =
            (if length default_root_certs_path > 0
             then (load_file_or_empty E default_root_certs_path,
                   [LoadConfiguredFile default_root_certs_path])
             else ([], []))
      in case (case (if result = [] then ssl_roots_override_cb E else None) of
                 None \<Rightarrow> Inr (result, GRPC_SSL_ROOTS_OVERRIDE_FAIL, log)
               | Some (ovrd_res, pem_root_certs) \<Rightarrow>
                   if ovrd_res = GRPC_SSL_ROOTS_OVERRIDE_OK
                   then (case pem_root_certs of
                           None \<Rightarrow> Inl AssertionFailed
                         | Some pem \<Rightarrow>
                             Inr (pem @ [CHR 0x00], ovrd_res, log @ [OverrideCallback]))
                   else Inr (result, ovrd_res, log @ [OverrideCallback])) of
           Inl e \<Rightarrow> Inl e
         | Inr (result, ovrd_res, log) \<Rightarrow>
             let (result, log) =
                   (if result = [] \<and> \<not> not_use_system_roots
                    then (LoadSystemRootCerts E, log @ [SystemRootCerts])
                    else (result, log));
                 (result, log) =
                   (if result = [] \<and> ovrd_res \<noteq> GRPC_SSL_ROOTS_OVERRIDE_FAIL_PERMANENTLY
                    then (load_file_or_empty E (installed_roots_path E),
                          log @ [LoadInstalledFile (installed_roots_path E)])
                    else (result, log))
             in Inr (result, log))"

text \<open>
  The process-wide variables of the file: the two \<^verbatim>\<open>gpr_once\<close> flags with the statics
  they guard, and the record of the outside calls made so far.
\<close>

record process_state =
  cipher_suites_once :: bool
  cipher_suites :: "string option"
  root_store_once :: bool
  default_root_store :: "handle option"
  default_pem_root_certs :: bytes
  io_log :: "io_event list"

definition initial_process_state :: process_state where
  "initial_process_state =
     \<lparr>cipher_suites_once = False, cipher_suites = None, root_store_once = False,
      default_root_store = None, default_pem_root_certs = [], io_log = []\<rparr>"

definition init_cipher_suites :: "environment \<Rightarrow> process_state \<Rightarrow> process_state" where
  "init_cipher_suites E w = w\<lparr>cipher_suites := Some (grpc_ssl_cipher_suites E)\<rparr>"

definition grpc_get_ssl_cipher_suites ::
  "environment \<Rightarrow> process_state \<Rightarrow> string option \<times> process_state" where
  "grpc_get_ssl_cipher_suites E w =
     (let w = (if cipher_suites_once w then w
               else (init_cipher_suites E w)\<lparr>cipher_suites_once := True\<rparr>)
      in (cipher_suites w, w))"

definition InitRootStoreOnce :: "environment \<Rightarrow> process_state \<Rightarrow> error + process_state" where
  "InitRootStoreOnce E w =
     (case ComputePemRootCerts E of
        Inl e \<Rightarrow> Inl e
      | Inr (pem, log) \<Rightarrow>
          let w = w\<lparr>default_pem_root_certs := pem, io_log := io_log w @ log\<rparr>
          in Inr (if default_pem_root_certs w \<noteq> []
                  then w\<lparr>default_root_store :=
                           tsi_ssl_root_certs_store_create E (default_pem_root_certs w)\<rparr>
                  else w))"

definition InitRootStore :: "environment \<Rightarrow> process_state \<Rightarrow> error + process_state" where
  "InitRootStore E w =
     (if root_store_once w then Inr w
      else (case InitRootStoreOnce E w of
              Inl e \<Rightarrow> Inl e
            | Inr w' \<Rightarrow> Inr (w'\<lparr>root_store_once := True\<rparr>)))"

definition GetRootStore ::
  "environment \<Rightarrow> process_state \<Rightarrow> error + (handle option \<times> process_state)" where
  "GetRootStore E w =
     (case InitRootStore E w of
        Inl e \<Rightarrow> Inl e
      | Inr w' \<Rightarrow> Inr (default_root_store w', w'))"

definition GetPemRootCerts ::
  "environment \<Rightarrow> process_state \<Rightarrow> error + (bytes option \<times> process_state)" where
  "GetPemRootCerts E w =
     (case InitRootStore E w of
        Inl e \<Rightarrow> Inl e
      | Inr w' \<Rightarrow>
          Inr (if default_pem_root_certs w' = [] then None
               else Some (default_pem_root_certs w'), w'))"

section \<open>Client handshaker factory\<close>

definition grpc_fill_alpn_protocol_strings :: "environment \<Rightarrow> string list \<times> nat" where
  "grpc_fill_alpn_protocol_strings E =
     (let num_alpn_protocols = grpc_chttp2_num_alpn_versions E
      in (map (grpc_chttp2_get_alpn_version_index E) [0..<num_alpn_protocols],
          num_alpn_protocols))"

text \<open>The options as their constructor leaves them.\<close>

definition default_client_handshaker_options :: tsi_ssl_client_handshaker_options where
  "default_client_handshaker_options =
     \<lparr>opt_pem_key_cert_pair = None, opt_pem_root_certs = None, opt_root_store = None,
      opt_alpn_protocols = [], opt_num_alpn_protocols = 0, opt_cipher_suites = None,
      opt_session_cache = None\<rparr>"

text \<open>
  \<^verbatim>\<open>grpc_ssl_tsi_client_handshaker_factory_init\<close> from the point where \<^verbatim>\<open>root_certs\<close>
  and \<^verbatim>\<open>root_store\<close> are chosen: the options are filled in and the engine is called.
\<close>

definition client_handshaker_factory_create ::
  "environment \<Rightarrow> tsi_ssl_pem_key_cert_pair option \<Rightarrow> bytes \<Rightarrow> handle option \<Rightarrow>
   handle option \<Rightarrow> handle option \<Rightarrow> process_state \<Rightarrow>
   grpc_security_status \<times> handle option \<times> process_state" where
  "client_handshaker_factory_create E pem_key_cert_pair root_certs root_store
     ssl_session_cache handshaker_factory w =
     (let has_key_cert_pair =
            (case pem_key_cert_pair of
               None \<Rightarrow> False
             | Some kc \<Rightarrow> private_key kc \<noteq> None \<and> cert_chain kc \<noteq> None);
          options = default_client_handshaker_options;
          options = options\<lparr>opt_pem_root_certs := Some root_certs\<rparr>;
          options = options\<lparr>opt_root_store := root_store\<rparr>;
          (strings, num) = grpc_fill_alpn_protocol_strings E;
          options = options\<lparr>opt_alpn_protocols := strings, opt_num_alpn_protocols := num\<rparr>;
          options = (if has_key_cert_pair
                     then options\<lparr>opt_pem_key_cert_pair := pem_key_cert_pair\<rparr>
                     else options);
          (suites, w) = grpc_get_ssl_cipher_suites E w;
          options = options\<lparr>opt_cipher_suites := suites\<rparr>;
          options = options\<lparr>opt_session_cache := ssl_session_cache\<rparr>;
          (result, handshaker_factory) =
            tsi_create_ssl_client_handshaker_factory_with_options E options handshaker_factory
      in if result \<noteq> TSI_OK then (GRPC_SECURITY_ERROR, handshaker_factory, w)
         else (GRPC_SECURITY_OK, handshaker_factory, w))"

text \<open>
  \<^verbatim>\<open>grpc_ssl_tsi_client_handshaker_factory_init\<close>: the status, the content of
  \<^verbatim>\<open>*handshaker_factory\<close> after the call (the argument is its content before) and the
  process state.
\<close>

definition grpc_ssl_tsi_client_handshaker_factory_init ::
  "environment \<Rightarrow> tsi_ssl_pem_key_cert_pair option \<Rightarrow> bytes option \<Rightarrow> handle option \<Rightarrow>
   handle option \<Rightarrow> process_state \<Rightarrow>
   error + (grpc_security_status \<times> handle option \<times> process_state)" where
  "grpc_ssl_tsi_client_handshaker_factory_init E pem_key_cert_pair pem_root_certs
     ssl_session_cache handshaker_factory w =
     (case pem_root_certs of
        None \<Rightarrow>
          (case GetPemRootCerts E w of
             Inl e \<Rightarrow> Inl e
           | Inr (root_certs, w) \<Rightarrow>
               (case root_certs of
                  None \<Rightarrow> Inr (GRPC_SECURITY_ERROR, handshaker_factory, w)
                | Some rc \<Rightarrow>
                    (case GetRootStore E w of
                       Inl e \<Rightarrow> Inl e
                     | Inr (root_store, w) \<Rightarrow>
                         Inr (client_handshaker_factory_create E pem_key_cert_pair rc
                                root_store ssl_session_cache handshaker_factory w))))
      | Some pem \<Rightarrow>
          Inr (client_handshaker_factory_create E pem_key_cert_pair pem None
                 ssl_session_cache handshaker_factory w))"

section \<open>Descriptions used in the statements\<close>

text \<open>
  What the loop of \<^verbatim>\<open>grpc_ssl_peer_to_auth_context\<close> adds to the context for one
  peer property (the translation table read off its branches), and the context the loop
  starts from.
\<close>

definition auth_props_of :: "prop_names \<Rightarrow> tsi_peer_property \<Rightarrow> grpc_auth_property list" where
  "auth_props_of K prop =
     (case tsi_name prop of
        None \<Rightarrow> []
      | Some n \<Rightarrow>
          if n = TSI_X509_SUBJECT_COMMON_NAME_PEER_PROPERTY K
          then [\<lparr>auth_name = GRPC_X509_CN_PROPERTY_NAME K, auth_value = tsi_value prop\<rparr>]
          else if n = TSI_X509_SUBJECT_ALTERNATIVE_NAME_PEER_PROPERTY K
          then [\<lparr>auth_name = GRPC_X509_SAN_PROPERTY_NAME K, auth_value = tsi_value prop\<rparr>]
          else if n = TSI_X509_PEM_CERT_PROPERTY K
          then [\<lparr>auth_name = GRPC_X509_PEM_CERT_PROPERTY_NAME K, auth_value = tsi_value prop\<rparr>]
          else if n = TSI_SSL_SESSION_REUSED_PEER_PROPERTY K
          then [\<lparr>auth_name = GRPC_SSL_SESSION_REUSED_PROPERTY K, auth_value = tsi_value prop\<rparr>]
          else [])"

definition initial_ctx :: "prop_names \<Rightarrow> grpc_auth_context" where
  "initial_ctx K =
     grpc_auth_context_add_cstring_property MakeRefCounted_grpc_auth_context
       (GRPC_TRANSPORT_SECURITY_TYPE_PROPERTY_NAME K) (GRPC_SSL_TRANSPORT_SECURITY_TYPE K)"

text \<open>
  The properties the second pass of \<^verbatim>\<open>grpc_shallow_peer_from_ssl_auth_context\<close> writes,
  what it writes for one of them, and the written part of a peer's array.
\<close>

definition is_x509_auth :: "prop_names \<Rightarrow> grpc_auth_property \<Rightarrow> bool" where
  "is_x509_auth K prop =
     (auth_name prop = GRPC_X509_SAN_PROPERTY_NAME K \<or>
      auth_name prop = GRPC_X509_CN_PROPERTY_NAME K \<or>
      auth_name prop = GRPC_X509_PEM_CERT_PROPERTY_NAME K)"

definition shallow_prop :: "prop_names \<Rightarrow> grpc_auth_property \<Rightarrow> tsi_peer_property" where
  "shallow_prop K prop =
     \<lparr>tsi_name =
        Some (if auth_name prop = GRPC_X509_SAN_PROPERTY_NAME K
              then TSI_X509_SUBJECT_ALTERNATIVE_NAME_PEER_PROPERTY K
              else if auth_name prop = GRPC_X509_CN_PROPERTY_NAME K
              then TSI_X509_SUBJECT_COMMON_NAME_PEER_PROPERTY K
              else TSI_X509_PEM_CERT_PROPERTY K),
      tsi_value = auth_value prop\<rparr>"

definition written_slots :: "tsi_peer \<Rightarrow> tsi_peer_property option list" where
  "written_slots peer = take (property_count peer) (properties peer)"

text \<open>
  The peer properties that carry the subject alternative name, the subject common name
  or the PEM certificate.
\<close>

definition is_x509_tsi :: "prop_names \<Rightarrow> tsi_peer_property \<Rightarrow> bool" where
  "is_x509_tsi K prop =
     (tsi_name prop = Some (TSI_X509_SUBJECT_ALTERNATIVE_NAME_PEER_PROPERTY K) \<or>
      tsi_name prop = Some (TSI_X509_SUBJECT_COMMON_NAME_PEER_PROPERTY K) \<or>
      tsi_name prop = Some (TSI_X509_PEM_CERT_PROPERTY K))"

text \<open>
  Modelled from the spec: \<open>stripZoneId(host)\<close> truncates at the first \<open>%\<close> character if
  present. It states what \<^verbatim>\<open>grpc_ssl_host_matches_name\<close> hands to the engine.
\<close>

definition spec_stripZoneId :: "string \<Rightarrow> string" where
  "spec_stripZoneId host = takeWhile (\<lambda>c. c \<noteq> CHR ''%'') host"

text \<open>
  What each of the four sources of \<^verbatim>\<open>ComputePemRootCerts\<close> yields when it is asked:
  the configured file, the override callback, the OS trust store, the installed file.
\<close>

definition configured_roots :: "environment \<Rightarrow> bytes" where
  "configured_roots E =
     (if grpc_default_ssl_roots_file_path E = [] then []
      else load_file_or_empty E (grpc_default_ssl_roots_file_path E))"

definition override_roots :: "environment \<Rightarrow> bytes" where
  "override_roots E =
     (case ssl_roots_override_cb E of
        Some (GRPC_SSL_ROOTS_OVERRIDE_OK, Some pem) \<Rightarrow> pem @ [CHR 0x00]
      | _ \<Rightarrow> [])"

definition system_roots :: "environment \<Rightarrow> bytes" where
  "system_roots E = (if grpc_not_use_system_ssl_roots E then [] else LoadSystemRootCerts E)"

definition installed_roots :: "environment \<Rightarrow> bytes" where
  "installed_roots E = load_file_or_empty E (installed_roots_path E)"

section \<open>Concrete inputs\<close>

text \<open>
  Two peers with both a common name and an alternative name, in the two orders; the
  first also has a session-reused property, a property with a null name, a PEM
  certificate and one unused slot.
\<close>

definition peer_cn_san :: tsi_peer where
  "peer_cn_san =
     \<lparr>properties =
        [Some \<lparr>tsi_name = Some ''x509_subject_common_name'', tsi_value = ''a.example''\<rparr>,
         Some \<lparr>tsi_name = Some ''ssl_session_reused'', tsi_value = ''false''\<rparr>,
         Some \<lparr>tsi_name = None, tsi_value = ''''\<rparr>,
         Some \<lparr>tsi_name = Some ''x509_subject_alternative_name'', tsi_value = ''b.example''\<rparr>,
         Some \<lparr>tsi_name = Some ''x509_pem_cert'', tsi_value = ''PEM''\<rparr>,
         None],
      property_count = 5\<rparr>"

definition peer_san_cn :: tsi_peer where
  "peer_san_cn =
     \<lparr>properties =
        [Some \<lparr>tsi_name = Some ''x509_subject_alternative_name'', tsi_value = ''b.example''\<rparr>,
         Some \<lparr>tsi_name = Some ''x509_subject_common_name'', tsi_value = ''a.example''\<rparr>],
      property_count = 2\<rparr>"

definition empty_peer :: tsi_peer where
  "empty_peer = \<lparr>properties = [], property_count = 0\<rparr>"

text \<open>
  A context as \<^verbatim>\<open>grpc_ssl_peer_to_auth_context\<close> builds it for a certificate with one
  alternative name.
\<close>

definition ctx_good_example :: grpc_auth_context where
  "ctx_good_example =
     \<lparr>ctx_properties =
        [\<lparr>auth_name = ''transport_security_type'', auth_value = ''ssl''\<rparr>,
         \<lparr>auth_name = ''x509_subject_alternative_name'', auth_value = ''good.example''\<rparr>],
      ctx_peer_identity_property_name = Some ''x509_subject_alternative_name''\<rparr>"

text \<open>
  An environment with the defaults of the file (no configured path, OS roots enabled,
  no callback, the compiled-in cipher suites and installed path), an OS trust store
  that yields nothing and an installed roots file; then variants of it: no file can be
  loaded, the callback fails permanently while the OS trust store has roots, the
  callback fails.
\<close>

definition example_environment :: environment where
  "example_environment =
     \<lparr>grpc_default_ssl_roots_file_path = [],
      grpc_not_use_system_ssl_roots = False,
      grpc_ssl_cipher_suites = ''ECDHE-ECDSA-AES128-GCM-SHA256:ECDHE-ECDSA-AES256-GCM-SHA384:ECDHE-RSA-AES128-GCM-SHA256:ECDHE-RSA-AES256-GCM-SHA384'',
      installed_roots_path = ''/usr/share/grpc/roots.pem'',
      ssl_roots_override_cb = None,
      grpc_load_file =
        (\<lambda>path add_null_terminator.
           if path = ''/usr/share/grpc/roots.pem''
           then Inr (''INSTALLED-ROOTS'' @ (if add_null_terminator then [CHR 0x00] else []))
           else Inl (GRPC_ERROR_CREATE ''Failed to load file'')),
      LoadSystemRootCerts = [],
      tsi_ssl_root_certs_store_create = (\<lambda>pem. Some 1),
      grpc_chttp2_num_alpn_versions = 2,
      grpc_chttp2_get_alpn_version_index = (\<lambda>i. if i = 0 then ''grpc-exp'' else ''h2''),
      tsi_create_ssl_client_handshaker_factory_with_options = (\<lambda>options factory. (TSI_OK, Some 7))\<rparr>"

definition environment_without_roots :: environment where
  "environment_without_roots =
     example_environment
       \<lparr>grpc_load_file := (\<lambda>path add_null_terminator. Inl (GRPC_ERROR_CREATE ''Failed to load file''))\<rparr>"

definition environment_fail_permanently :: environment where
  "environment_fail_permanently =
     example_environment
       \<lparr>ssl_roots_override_cb := Some (GRPC_SSL_ROOTS_OVERRIDE_FAIL_PERMANENTLY, None),
        LoadSystemRootCerts := ''OS-ROOTS''\<rparr>"

definition environment_override_fail :: environment where
  "environment_override_fail =
     example_environment\<lparr>ssl_roots_override_cb := Some (GRPC_SSL_ROOTS_OVERRIDE_FAIL, None)\<rparr>"

section \<open>Peer to authentication context: proofs\<close>

text \<open>
  On a peer whose first \<^verbatim>\<open>property_count\<close> slots are written, the loop never fails
  and is the fold of its body over the peer's properties.
\<close>

lemma read_property_ok:
  "peer_ok peer \<Longrightarrow> i < property_count peer \<Longrightarrow> read_property peer i = Inr (peer_props peer ! i)"
  by (auto simp: peer_ok_def read_property_def peer_props_def list_all_length split: option.splits)

lemma length_peer_props: "peer_ok peer \<Longrightarrow> length (peer_props peer) = property_count peer"
  by (simp add: peer_ok_def peer_props_def)

lemma peer_to_auth_loop_fold:
  "peer_ok peer \<Longrightarrow> i \<le> property_count peer \<Longrightarrow>
   peer_to_auth_loop K peer i s = Inr (fold (peer_to_auth_step K) (drop i (peer_props peer)) s)"
proof (induction "property_count peer - i" arbitrary: i s)
  case 0
  then show ?case
    by (simp add: peer_to_auth_loop.simps [of K peer i] length_peer_props)
next
  case (Suc d)
  then have lt: "i < property_count peer" by simp
  have dr: "drop i (peer_props peer) = peer_props peer ! i # drop (Suc i) (peer_props peer)"
    using lt Suc.prems(1) by (simp add: Cons_nth_drop_Suc length_peer_props)
  have "peer_to_auth_loop K peer (Suc i) (peer_to_auth_step K (peer_props peer ! i) s) =
        Inr (fold (peer_to_auth_step K) (drop (Suc i) (peer_props peer))
               (peer_to_auth_step K (peer_props peer ! i) s))"
    using Suc by (intro Suc.hyps(1)) auto
  then show ?case
    using lt Suc.prems(1)
    by (simp add: peer_to_auth_loop.simps [of K peer i] read_property_ok dr)
qed

lemma step_props:
  "ctx_properties (fst (peer_to_auth_step K prop s)) = ctx_properties (fst s) @ auth_props_of K prop"
  by (cases s) (simp add: peer_to_auth_step_def auth_props_of_def grpc_auth_context_add_property_def
      split: option.splits)

lemma fold_props:
  "ctx_properties (fst (fold (peer_to_auth_step K) ps s)) =
   ctx_properties (fst s) @ concat (map (auth_props_of K) ps)"
  by (induction ps arbitrary: s) (simp_all add: step_props)

lemma step_ident_ctx:
  "ctx_peer_identity_property_name (fst (peer_to_auth_step K prop s)) = ctx_peer_identity_property_name (fst s)"
  by (cases s) (simp add: peer_to_auth_step_def grpc_auth_context_add_property_def split: option.splits)

lemma fold_ident_ctx:
  "ctx_peer_identity_property_name (fst (fold (peer_to_auth_step K) ps s)) = ctx_peer_identity_property_name (fst s)"
  by (induction ps arbitrary: s) (simp_all add: step_ident_ctx)

text \<open>
  The local \<^verbatim>\<open>peer_identity_property_name\<close> after the loop: the alternative name wins
  wherever it stands; the common name is taken only when nothing was designated before
  and no alternative name follows.
\<close>

lemma fold_ident:
  assumes "TSI_X509_SUBJECT_COMMON_NAME_PEER_PROPERTY K \<noteq> TSI_X509_SUBJECT_ALTERNATIVE_NAME_PEER_PROPERTY K"
  shows "snd (fold (peer_to_auth_step K) ps (ctx, ident)) =
     (if Some (TSI_X509_SUBJECT_ALTERNATIVE_NAME_PEER_PROPERTY K) \<in> tsi_name ` set ps
      then Some (GRPC_X509_SAN_PROPERTY_NAME K)
      else if ident \<noteq> None then ident
      else if Some (TSI_X509_SUBJECT_COMMON_NAME_PEER_PROPERTY K) \<in> tsi_name ` set ps
      then Some (GRPC_X509_CN_PROPERTY_NAME K)
      else None)"
  using assms
proof (induction ps arbitrary: ctx ident)
  case Nil
  then show ?case by simp
next
  case (Cons p ps)
  obtain c' i' where st: "peer_to_auth_step K p (ctx, ident) = (c', i')" by force
  show ?case
    using Cons.prems st Cons.IH [OF Cons.prems, of c' i']
    by (cases "tsi_name p") (auto simp: peer_to_auth_step_def split: if_splits)
qed

text \<open>
  The designated name is the name of a property the loop has added, so the assertion on
  \<^verbatim>\<open>grpc_auth_context_set_peer_identity_property_name\<close> holds.
\<close>

lemma step_ident_present:
  assumes "peer_to_auth_step K p (ctx, ident) = (ctx', ident')"
    and "ident = None \<or> the ident \<in> auth_name ` set (ctx_properties ctx)"
  shows "ident' = None \<or> the ident' \<in> auth_name ` set (ctx_properties ctx')"
  using assms
  by (cases "tsi_name p")
     (auto simp: peer_to_auth_step_def grpc_auth_context_add_property_def split: if_splits)

lemma fold_ident_present:
  assumes "fold (peer_to_auth_step K) ps (ctx, ident) = (ctx', ident')"
    and "ident = None \<or> the ident \<in> auth_name ` set (ctx_properties ctx)"
  shows "ident' = None \<or> the ident' \<in> auth_name ` set (ctx_properties ctx')"
  using assms
proof (induction ps arbitrary: ctx ident)
  case Nil
  then show ?case by simp
next
  case (Cons p ps)
  obtain c1 i1 where st: "peer_to_auth_step K p (ctx, ident) = (c1, i1)" by force
  have "i1 = None \<or> the i1 \<in> auth_name ` set (ctx_properties c1)"
    using step_ident_present [OF st Cons.prems(2)] .
  moreover have "fold (peer_to_auth_step K) ps (c1, i1) = (ctx', ident')"
    using Cons.prems(1) st by simp
  ultimately show ?case by (rule Cons.IH [rotated])
qed

lemma set_identity_present:
  assumes "n \<in> auth_name ` set (ctx_properties ctx)"
  shows "grpc_auth_context_set_peer_identity_property_name ctx n =
         (1, ctx\<lparr>ctx_peer_identity_property_name := Some n\<rparr>)"
proof -
  obtain p where "find (\<lambda>p. auth_name p = n) (ctx_properties ctx) = Some p"
    using assms by (cases "find (\<lambda>p. auth_name p = n) (ctx_properties ctx)") (auto simp: find_None_iff)
  moreover from this have "auth_name p = n" by (auto simp: find_Some_iff)
  ultimately show ?thesis
    by (simp add: grpc_auth_context_set_peer_identity_property_name_def)
qed

lemma peer_to_auth_context_eq:
  assumes ok: "peer_ok peer" and ge: "1 \<le> property_count peer"
  shows "grpc_ssl_peer_to_auth_context K peer =
         Inr ((fst (fold (peer_to_auth_step K) (peer_props peer) (initial_ctx K, None)))
                \<lparr>ctx_peer_identity_property_name :=
                   snd (fold (peer_to_auth_step K) (peer_props peer) (initial_ctx K, None))\<rparr>)"
proof -
  obtain c i where r: "fold (peer_to_auth_step K) (peer_props peer) (initial_ctx K, None) = (c, i)"
    by force
  have loop: "peer_to_auth_loop K peer 0 (initial_ctx K, None) = Inr (c, i)"
    using peer_to_auth_loop_fold [OF ok, of 0 K "(initial_ctx K, None)"] r by simp
  have idc: "ctx_peer_identity_property_name c = None"
    using fold_ident_ctx [of K "peer_props peer" "(initial_ctx K, None)"] r
    by (simp add: initial_ctx_def grpc_auth_context_add_cstring_property_def
        grpc_auth_context_add_property_def MakeRefCounted_grpc_auth_context_def)
  have pres: "i = None \<or> the i \<in> auth_name ` set (ctx_properties c)"
    using fold_ident_present [OF r] by simp
  show ?thesis
  proof (cases i)
    case None
    have "c\<lparr>ctx_peer_identity_property_name := None\<rparr> = c"
      using idc by (cases c) simp
    then show ?thesis
      using ge loop None r
      by (simp add: grpc_ssl_peer_to_auth_context_def initial_ctx_def Let_def)
  next
    case (Some n)
    then have "n \<in> auth_name ` set (ctx_properties c)" using pres by simp
    then show ?thesis
      using ge loop Some r set_identity_present [of n c]
      by (simp add: grpc_ssl_peer_to_auth_context_def initial_ctx_def Let_def)
  qed
qed

text \<open>
  Claim C3. \<^verbatim>\<open>grpc_ssl_peer_to_auth_context\<close> returns a context for every peer with at
  least one property, and the context is a function of the ordered list of the peer's
  properties. The designated peer identity is the SAN property name whenever a subject
  alternative name occurs anywhere in the list, before or after a common name; it is
  the CN property name only when a common name occurs and no alternative name does; and
  nothing is designated otherwise.
\<close>

theorem peer_identity_san_over_cn:
  assumes "peer_ok peer" and "1 \<le> property_count peer"
    and "TSI_X509_SUBJECT_COMMON_NAME_PEER_PROPERTY K \<noteq>
         TSI_X509_SUBJECT_ALTERNATIVE_NAME_PEER_PROPERTY K"
  shows "\<exists>ctx. grpc_ssl_peer_to_auth_context K peer = Inr ctx \<and>
           ctx_peer_identity_property_name ctx =
             (if Some (TSI_X509_SUBJECT_ALTERNATIVE_NAME_PEER_PROPERTY K)
                   \<in> tsi_name ` set (peer_props peer)
              then Some (GRPC_X509_SAN_PROPERTY_NAME K)
              else if Some (TSI_X509_SUBJECT_COMMON_NAME_PEER_PROPERTY K)
                        \<in> tsi_name ` set (peer_props peer)
              then Some (GRPC_X509_CN_PROPERTY_NAME K)
              else None) \<and>
           (\<forall>peer'. peer_ok peer' \<and> peer_props peer' = peer_props peer \<longrightarrow>
                     grpc_ssl_peer_to_auth_context K peer' = Inr ctx)"
proof -
  let ?r = "fold (peer_to_auth_step K) (peer_props peer) (initial_ctx K, None)"
  let ?ctx = "(fst ?r)\<lparr>ctx_peer_identity_property_name := snd ?r\<rparr>"
  have a: "grpc_ssl_peer_to_auth_context K peer = Inr ?ctx"
    using assms(1,2) by (rule peer_to_auth_context_eq)
  have b: "ctx_peer_identity_property_name ?ctx =
             (if Some (TSI_X509_SUBJECT_ALTERNATIVE_NAME_PEER_PROPERTY K)
                   \<in> tsi_name ` set (peer_props peer)
              then Some (GRPC_X509_SAN_PROPERTY_NAME K)
              else if Some (TSI_X509_SUBJECT_COMMON_NAME_PEER_PROPERTY K)
                        \<in> tsi_name ` set (peer_props peer)
              then Some (GRPC_X509_CN_PROPERTY_NAME K)
              else None)"
    using fold_ident [OF assms(3), of "peer_props peer" "initial_ctx K" None] by simp
  have c: "grpc_ssl_peer_to_auth_context K peer' = Inr ?ctx"
    if "peer_ok peer'" and "peer_props peer' = peer_props peer" for peer'
  proof -
    have "property_count peer' = property_count peer"
      using that assms(1) length_peer_props by metis
    then show ?thesis
      using peer_to_auth_context_eq [of peer' K] that assms(2) by simp
  qed
  show ?thesis
    using a b c by blast
qed

text \<open>
  Both orders on concrete peers: common name first, and alternative name first.
\<close>

theorem peer_identity_san_over_cn_witness:
  "peer_ok peer_cn_san \<and> 1 \<le> property_count peer_cn_san \<and>
   peer_ok peer_san_cn \<and> 1 \<le> property_count peer_san_cn \<and>
   TSI_X509_SUBJECT_COMMON_NAME_PEER_PROPERTY grpc_names \<noteq>
     TSI_X509_SUBJECT_ALTERNATIVE_NAME_PEER_PROPERTY grpc_names \<and>
   (\<exists>ctx. grpc_ssl_peer_to_auth_context grpc_names peer_cn_san = Inr ctx \<and>
      ctx_peer_identity_property_name ctx = Some ''x509_subject_alternative_name'') \<and>
   (\<exists>ctx. grpc_ssl_peer_to_auth_context grpc_names peer_san_cn = Inr ctx \<and>
      ctx_peer_identity_property_name ctx = Some ''x509_subject_alternative_name'')"
proof -
  have ok1: "peer_ok peer_cn_san" and ge1: "1 \<le> property_count peer_cn_san"
    by (simp_all add: peer_ok_def peer_cn_san_def)
  have ok2: "peer_ok peer_san_cn" and ge2: "1 \<le> property_count peer_san_cn"
    by (simp_all add: peer_ok_def peer_san_cn_def)
  have ne: "TSI_X509_SUBJECT_COMMON_NAME_PEER_PROPERTY grpc_names \<noteq>
            TSI_X509_SUBJECT_ALTERNATIVE_NAME_PEER_PROPERTY grpc_names"
    by (simp add: grpc_names_def)
  have p1: "peer_props peer_cn_san =
     [\<lparr>tsi_name = Some ''x509_subject_common_name'', tsi_value = ''a.example''\<rparr>,
      \<lparr>tsi_name = Some ''ssl_session_reused'', tsi_value = ''false''\<rparr>,
      \<lparr>tsi_name = None, tsi_value = ''''\<rparr>,
      \<lparr>tsi_name = Some ''x509_subject_alternative_name'', tsi_value = ''b.example''\<rparr>,
      \<lparr>tsi_name = Some ''x509_pem_cert'', tsi_value = ''PEM''\<rparr>]"
    by (simp add: peer_props_def peer_cn_san_def)
  have p2: "peer_props peer_san_cn =
     [\<lparr>tsi_name = Some ''x509_subject_alternative_name'', tsi_value = ''b.example''\<rparr>,
      \<lparr>tsi_name = Some ''x509_subject_common_name'', tsi_value = ''a.example''\<rparr>]"
    by (simp add: peer_props_def peer_san_cn_def)
  have w1: "\<exists>ctx. grpc_ssl_peer_to_auth_context grpc_names peer_cn_san = Inr ctx \<and>
      ctx_peer_identity_property_name ctx = Some ''x509_subject_alternative_name''"
    using peer_identity_san_over_cn [OF ok1 ge1 ne] by (auto simp: p1 grpc_names_def)
  have w2: "\<exists>ctx. grpc_ssl_peer_to_auth_context grpc_names peer_san_cn = Inr ctx \<and>
      ctx_peer_identity_property_name ctx = Some ''x509_subject_alternative_name''"
    using peer_identity_san_over_cn [OF ok2 ge2 ne] by (auto simp: p2 grpc_names_def)
  show ?thesis using ok1 ge1 ok2 ge2 ne w1 w2 by blast
qed

section \<open>Authentication context to shallow peer: proofs\<close>

text \<open>
  The second pass never writes past the array: it fails nowhere, keeps the number of
  slots, and appends one entry per SAN, CN or PEM-cert property.
\<close>

lemma add_shallow_ok:
  assumes "property_count peer < length (properties peer)"
  shows "\<exists>peer'. add_shallow_auth_property_to_peer peer prop n = Inr peer' \<and>
           length (properties peer') = length (properties peer) \<and>
           property_count peer' = Suc (property_count peer) \<and>
           written_slots peer' = written_slots peer @ [Some \<lparr>tsi_name = Some n, tsi_value = auth_value prop\<rparr>]"
  using assms
  by (simp add: add_shallow_auth_property_to_peer_def written_slots_def take_Suc_conv_app_nth)

lemma shallow_loop_writes:
  "property_count peer + length (filter (is_x509_auth K) it) \<le> length (properties peer) \<Longrightarrow>
   \<exists>peer'. shallow_loop K it peer = Inr peer' \<and>
     length (properties peer') = length (properties peer) \<and>
     property_count peer' = property_count peer + length (filter (is_x509_auth K) it) \<and>
     written_slots peer' = written_slots peer @ map (\<lambda>p. Some (shallow_prop K p)) (filter (is_x509_auth K) it)"
proof (induction it arbitrary: peer)
  case Nil
  then show ?case by simp
next
  case (Cons pr it)
  show ?case
  proof (cases "is_x509_auth K pr")
    case False
    then show ?thesis
      using Cons.IH [of peer] Cons.prems by (simp add: is_x509_auth_def)
  next
    case True
    then have lt: "property_count peer < length (properties peer)"
      using Cons.prems by simp
    define n where "n = the (tsi_name (shallow_prop K pr))"
    obtain peer1 where p1: "add_shallow_auth_property_to_peer peer pr n = Inr peer1"
      "length (properties peer1) = length (properties peer)"
      "property_count peer1 = Suc (property_count peer)"
      "written_slots peer1 = written_slots peer @ [Some \<lparr>tsi_name = Some n, tsi_value = auth_value pr\<rparr>]"
      using add_shallow_ok [OF lt, of pr n] by blast
    have sp: "\<lparr>tsi_name = Some n, tsi_value = auth_value pr\<rparr> = shallow_prop K pr"
      by (simp add: n_def shallow_prop_def)
    have step: "shallow_loop K (pr # it) peer = shallow_loop K it peer1"
      using True p1(1) by (auto simp: is_x509_auth_def n_def shallow_prop_def)
    have "property_count peer1 + length (filter (is_x509_auth K) it) \<le> length (properties peer1)"
      using Cons.prems True p1 by simp
    from Cons.IH [OF this] show ?thesis
      using True p1 sp step by auto
  qed
qed

lemma count_props_length: "count_props it n = n + length it"
  by (induction it arbitrary: n) simp_all

lemma shallow_peer_eq:
  "\<exists>peer. grpc_shallow_peer_from_ssl_auth_context K ctx = Inr peer \<and>
     length (properties peer) = length (ctx_properties ctx) \<and>
     property_count peer = length (filter (is_x509_auth K) (ctx_properties ctx)) \<and>
     written_slots peer = map (\<lambda>p. Some (shallow_prop K p)) (filter (is_x509_auth K) (ctx_properties ctx))"
proof (cases "ctx_properties ctx = []")
  case True
  then show ?thesis
    by (simp add: grpc_shallow_peer_from_ssl_auth_context_def
        grpc_auth_context_property_iterator_def written_slots_def)
next
  case False
  let ?p0 = "\<lparr>properties = replicate (length (ctx_properties ctx)) None, property_count = 0\<rparr>"
  have "property_count ?p0 + length (filter (is_x509_auth K) (ctx_properties ctx))
        \<le> length (properties ?p0)" by simp
  from shallow_loop_writes [OF this] show ?thesis
    using False
    by (simp add: grpc_shallow_peer_from_ssl_auth_context_def
        grpc_auth_context_property_iterator_def count_props_length written_slots_def)
qed

lemma length_filter_all: "(length (filter P xs) = length xs) = list_all P xs"
proof (induction xs)
  case Nil
  show ?case by simp
next
  case (Cons a xs)
  have "length (filter P xs) \<le> length xs" by (rule length_filter_le)
  then have "length (filter P xs) \<noteq> Suc (length xs)" by arith
  with Cons show ?case by simp
qed

text \<open>
  Claim C8, as amended. The first pass counts every property of the context and that
  many slots are allocated; the second pass writes one slot for each SAN, CN or PEM-cert
  property only. So the entries written never exceed the slots allocated, and the two
  numbers are equal exactly when every property of the context is one of those three.
\<close>

theorem shallow_peer_slots:
  "\<exists>peer. grpc_shallow_peer_from_ssl_auth_context K auth_context = Inr peer \<and>
     length (properties peer) = length (ctx_properties auth_context) \<and>
     property_count peer = length (filter (is_x509_auth K) (ctx_properties auth_context)) \<and>
     property_count peer \<le> length (properties peer) \<and>
     (property_count peer = length (properties peer)) =
       list_all (is_x509_auth K) (ctx_properties auth_context)"
proof -
  obtain peer where sp: "grpc_shallow_peer_from_ssl_auth_context K auth_context = Inr peer"
    "length (properties peer) = length (ctx_properties auth_context)"
    "property_count peer = length (filter (is_x509_auth K) (ctx_properties auth_context))"
    using shallow_peer_eq [of K auth_context] by blast
  have le: "property_count peer \<le> length (properties peer)"
    unfolding sp(2,3) by (rule length_filter_le)
  show ?thesis using sp le by (auto simp: length_filter_all)
qed

text \<open>
  The claim as stated (slots allocated equal entries written) fails on a context that
  holds the transport security type and one alternative name: two slots are allocated
  and one is written.
\<close>

theorem shallow_peer_over_allocates:
  "grpc_shallow_peer_from_ssl_auth_context grpc_names ctx_good_example =
     Inr \<lparr>properties =
            [Some \<lparr>tsi_name = Some ''x509_subject_alternative_name'',
                   tsi_value = ''good.example''\<rparr>,
             None],
          property_count = 1\<rparr>"
  by (simp add: grpc_shallow_peer_from_ssl_auth_context_def ctx_good_example_def grpc_names_def
      grpc_auth_context_property_iterator_def add_shallow_auth_property_to_peer_def)

text \<open>
  Translating a peer property to the context and back gives the property itself when
  it is a SAN, CN or PEM-cert property, and nothing otherwise.
\<close>

lemma roundtrip_one:
  assumes "names_distinct K"
  shows "map (shallow_prop K) (filter (is_x509_auth K) (auth_props_of K p)) =
         filter (is_x509_tsi K) [p]"
  using assms
  by (cases p; cases "tsi_name p")
     (auto simp: names_distinct_def auth_props_of_def is_x509_auth_def is_x509_tsi_def shallow_prop_def)

lemma roundtrip_list:
  assumes "names_distinct K"
  shows "map (shallow_prop K) (filter (is_x509_auth K) (concat (map (auth_props_of K) ps))) =
         filter (is_x509_tsi K) ps"
proof (induction ps)
  case Nil
  show ?case by simp
next
  case (Cons p ps)
  have "filter (is_x509_tsi K) (p # ps) = filter (is_x509_tsi K) [p] @ filter (is_x509_tsi K) ps"
    by simp
  then show ?case
    using roundtrip_one [OF assms, of p] Cons.IH by (simp del: filter.simps)
qed

text \<open>
  Claim C4. For every peer with at least one property, the shallow peer rebuilt from the
  context of the peer holds exactly the SAN, CN and PEM-certificate properties of the
  peer, in their order, with the same names and the same value bytes; the
  session-reused property does not occur in it.
\<close>

theorem shallow_peer_roundtrip:
  assumes "peer_ok peer" and "1 \<le> property_count peer" and "names_distinct K"
  shows "\<exists>ctx sp. grpc_ssl_peer_to_auth_context K peer = Inr ctx \<and>
           grpc_shallow_peer_from_ssl_auth_context K ctx = Inr sp \<and>
           peer_ok sp \<and>
           peer_props sp = filter (is_x509_tsi K) (peer_props peer) \<and>
           Some (TSI_SSL_SESSION_REUSED_PEER_PROPERTY K) \<notin> tsi_name ` set (peer_props sp)"
proof -
  let ?r = "fold (peer_to_auth_step K) (peer_props peer) (initial_ctx K, None)"
  let ?ctx = "(fst ?r)\<lparr>ctx_peer_identity_property_name := snd ?r\<rparr>"
  have a: "grpc_ssl_peer_to_auth_context K peer = Inr ?ctx"
    using assms(1,2) by (rule peer_to_auth_context_eq)
  have props: "ctx_properties ?ctx =
      \<lparr>auth_name = GRPC_TRANSPORT_SECURITY_TYPE_PROPERTY_NAME K,
       auth_value = GRPC_SSL_TRANSPORT_SECURITY_TYPE K\<rparr> #
      concat (map (auth_props_of K) (peer_props peer))"
    using fold_props [of K "peer_props peer" "(initial_ctx K, None)"]
    by (simp add: initial_ctx_def grpc_auth_context_add_cstring_property_def
        grpc_auth_context_add_property_def MakeRefCounted_grpc_auth_context_def)
  have nx: "\<not> is_x509_auth K \<lparr>auth_name = GRPC_TRANSPORT_SECURITY_TYPE_PROPERTY_NAME K,
       auth_value = GRPC_SSL_TRANSPORT_SECURITY_TYPE K\<rparr>"
    using assms(3) by (auto simp: is_x509_auth_def names_distinct_def)
  obtain sp where sp: "grpc_shallow_peer_from_ssl_auth_context K ?ctx = Inr sp"
    "length (properties sp) = length (ctx_properties ?ctx)"
    "property_count sp = length (filter (is_x509_auth K) (ctx_properties ?ctx))"
    "written_slots sp = map (\<lambda>p. Some (shallow_prop K p)) (filter (is_x509_auth K) (ctx_properties ?ctx))"
    using shallow_peer_eq [of K ?ctx] by blast
  have le: "property_count sp \<le> length (properties sp)"
    unfolding sp(2,3) by (rule length_filter_le)
  have "written_slots sp = map Some (map (shallow_prop K)
           (filter (is_x509_auth K) (concat (map (auth_props_of K) (peer_props peer)))))"
    using sp(4) nx by (simp add: props comp_def)
  then have wr: "written_slots sp = map Some (filter (is_x509_tsi K) (peer_props peer))"
    by (simp only: roundtrip_list [OF assms(3)])
  have ok: "peer_ok sp"
    using le wr by (simp add: peer_ok_def written_slots_def list_all_iff)
  have pp: "peer_props sp = filter (is_x509_tsi K) (peer_props peer)"
    using wr by (simp add: peer_props_def written_slots_def comp_def)
  have nr: "Some (TSI_SSL_SESSION_REUSED_PEER_PROPERTY K) \<notin> tsi_name ` set (peer_props sp)"
    using assms(3) by (auto simp: pp is_x509_tsi_def names_distinct_def)
  show ?thesis using a sp(1) ok pp nr by blast
qed

text \<open>
  On the concrete peer: the session-reused property and the property with a null name
  are gone, the other three come back.
\<close>

theorem shallow_peer_roundtrip_witness:
  "peer_ok peer_cn_san \<and> 1 \<le> property_count peer_cn_san \<and> names_distinct grpc_names \<and>
   (\<exists>ctx sp. grpc_ssl_peer_to_auth_context grpc_names peer_cn_san = Inr ctx \<and>
      grpc_shallow_peer_from_ssl_auth_context grpc_names ctx = Inr sp \<and>
      peer_props sp =
        [\<lparr>tsi_name = Some ''x509_subject_common_name'', tsi_value = ''a.example''\<rparr>,
         \<lparr>tsi_name = Some ''x509_subject_alternative_name'', tsi_value = ''b.example''\<rparr>,
         \<lparr>tsi_name = Some ''x509_pem_cert'', tsi_value = ''PEM''\<rparr>])"
proof -
  have ok1: "peer_ok peer_cn_san" and ge1: "1 \<le> property_count peer_cn_san"
    by (simp_all add: peer_ok_def peer_cn_san_def)
  have nd: "names_distinct grpc_names"
    by (simp add: names_distinct_def grpc_names_def)
  have p1: "filter (is_x509_tsi grpc_names) (peer_props peer_cn_san) =
     [\<lparr>tsi_name = Some ''x509_subject_common_name'', tsi_value = ''a.example''\<rparr>,
      \<lparr>tsi_name = Some ''x509_subject_alternative_name'', tsi_value = ''b.example''\<rparr>,
      \<lparr>tsi_name = Some ''x509_pem_cert'', tsi_value = ''PEM''\<rparr>]"
    by (simp add: peer_props_def peer_cn_san_def is_x509_tsi_def grpc_names_def)
  show ?thesis
    using shallow_peer_roundtrip [OF ok1 ge1 nd] ok1 ge1 nd unfolding p1 by blast
qed

section \<open>Name matching: proofs\<close>

lemma remove_suffix_find:
  assumes "StringView_find h c = Some z"
  shows "remove_suffix h (length h - z) = takeWhile (\<lambda>x. x \<noteq> c) h"
proof -
  have z: "z = length (takeWhile (\<lambda>x. x \<noteq> c) h)"
    using assms by (simp add: StringView_find_def split: if_splits)
  have "z \<le> length h" unfolding z by (rule length_takeWhile_le)
  then have "length h - (length h - z) = z" by arith
  then show ?thesis
    by (simp add: remove_suffix_def z takeWhile_eq_take [symmetric])
qed

lemma find_none_takeWhile:
  assumes "StringView_find h c = None"
  shows "takeWhile (\<lambda>x. x \<noteq> c) h = h"
proof -
  have "c \<notin> set h" using assms by (simp add: StringView_find_def split: if_splits)
  then show ?thesis by (auto simp: takeWhile_eq_all_conv)
qed

lemma host_matches_name_eq:
  "grpc_ssl_host_matches_name S M peer peer_name =
     (if fst (S peer_name) = [] then 0
      else M peer (spec_stripZoneId (fst (S peer_name))))"
proof (cases "S peer_name")
  case (Pair h p)
  show ?thesis
  proof (cases "StringView_find h (CHR ''%'')")
    case None
    then show ?thesis
      using Pair
      by (simp add: grpc_ssl_host_matches_name_def spec_stripZoneId_def
          find_none_takeWhile [OF None])
  next
    case (Some z)
    then show ?thesis
      using Pair
      by (simp add: grpc_ssl_host_matches_name_def spec_stripZoneId_def
          remove_suffix_find [OF Some])
  qed
qed

text \<open>
  Claim C7, as amended. \<^verbatim>\<open>grpc_ssl_host_matches_name\<close> splits the name into host and
  port, returns 0 when the host left by the split is empty, and otherwise returns the
  engine's verdict on the host truncated at its first \<open>%\<close>; the test for the empty host
  comes before the truncation, so a host that the truncation empties is still handed to
  the engine. The name \<open>[::1%eth0]:443\<close> is compared as \<open>::1\<close>.
\<close>

theorem host_matches_name_split_then_strip:
  "grpc_ssl_host_matches_name S M peer peer_name =
     (if fst (S peer_name) = [] then 0
      else M peer (spec_stripZoneId (fst (S peer_name)))) \<and>
   grpc_ssl_host_matches_name spec_splitHostPort M peer ''[::1%eth0]:443'' = M peer ''::1''"
proof -
  have "fst (spec_splitHostPort ''[::1%eth0]:443'') = ''::1%eth0''"
    by (simp add: spec_splitHostPort_def)
  then have "grpc_ssl_host_matches_name spec_splitHostPort M peer ''[::1%eth0]:443'' = M peer ''::1''"
    by (simp add: host_matches_name_eq spec_stripZoneId_def)
  then show ?thesis by (simp add: host_matches_name_eq)
qed

text \<open>
  The claim as stated (false whenever the truncated host is empty) fails on the name
  \<open>%eth0\<close>: the split leaves the host \<open>%eth0\<close>, the truncation empties it, and the
  result is the verdict of the engine, here one that accepts every name.
\<close>

theorem host_matches_name_empty_after_strip:
  "spec_splitHostPort ''%eth0'' = (''%eth0'', '''') \<and>
   spec_stripZoneId ''%eth0'' = '''' \<and>
   grpc_ssl_host_matches_name spec_splitHostPort matches_every_name empty_peer ''%eth0'' = 1"
  by (simp add: host_matches_name_eq spec_splitHostPort_def spec_stripZoneId_def
      matches_every_name_def)

section \<open>Peer checks: proofs\<close>

text \<open>
  Claim C10. \<^verbatim>\<open>grpc_ssl_check_alpn\<close> returns \<^verbatim>\<open>GRPC_ERROR_NONE\<close> for every peer,
  whatever its properties; the peer is not inspected.
\<close>

theorem check_alpn_no_error: "grpc_ssl_check_alpn peer = GRPC_ERROR_NONE"
  by (simp add: grpc_ssl_check_alpn_def)

theorem check_alpn_no_error_witness:
  "grpc_ssl_check_alpn empty_peer = GRPC_ERROR_NONE \<and>
   grpc_ssl_check_alpn peer_cn_san = GRPC_ERROR_NONE"
  using check_alpn_no_error [of empty_peer] check_alpn_no_error [of peer_cn_san] by simp

lemma check_call_host_eq:
  "\<exists>peer. grpc_shallow_peer_from_ssl_auth_context K auth_context = Inr peer \<and>
     grpc_ssl_check_call_host K S M host target_name overridden_target_name auth_context
       on_call_host_checked err =
     Inr (True,
          if call_host_status S M peer host target_name overridden_target_name = GRPC_SECURITY_OK
          then err
          else GRPC_ERROR_CREATE ''call host does not match SSL server name'')"
proof -
  obtain peer where "grpc_shallow_peer_from_ssl_auth_context K auth_context = Inr peer"
    using shallow_peer_eq [of K auth_context] by blast
  then show ?thesis
    by (simp add: grpc_ssl_check_call_host_def Let_def)
qed

text \<open>
  Claim C5. \<^verbatim>\<open>grpc_ssl_check_call_host\<close> returns \<open>true\<close> on every input. When the
  status it computed is not \<^verbatim>\<open>GRPC_SECURITY_OK\<close> the only trace of the failure is the
  error written to \<^verbatim>\<open>*error\<close>; otherwise \<^verbatim>\<open>*error\<close> keeps its content.
\<close>

theorem check_call_host_returns_true:
  "\<exists>peer. grpc_shallow_peer_from_ssl_auth_context K auth_context = Inr peer \<and>
     grpc_ssl_check_call_host K S M host target_name overridden_target_name auth_context
       on_call_host_checked err =
     Inr (True,
          if call_host_status S M peer host target_name overridden_target_name = GRPC_SECURITY_OK
          then err
          else GRPC_ERROR_CREATE ''call host does not match SSL server name'')"
  by (rule check_call_host_eq)

text \<open>
  A call whose status is an error: the host is not in the certificate and there is no
  override. The call returns \<open>true\<close> and writes the error.
\<close>

theorem check_call_host_returns_true_witness:
  "grpc_ssl_check_call_host grpc_names spec_splitHostPort matches_no_name ''other.example''
     ''good.example'' '''' ctx_good_example () GRPC_ERROR_NONE =
     Inr (True, GRPC_ERROR_CREATE ''call host does not match SSL server name'')"
proof -
  have "call_host_status spec_splitHostPort matches_no_name peer ''other.example''
          ''good.example'' '''' = GRPC_SECURITY_ERROR" for peer
    by (simp add: call_host_status_def host_matches_name_eq matches_no_name_def)
  then show ?thesis
    using check_call_host_returns_true [of grpc_names ctx_good_example spec_splitHostPort
        matches_no_name "''other.example''" "''good.example''" "''''" "()" GRPC_ERROR_NONE]
    by auto
qed

text \<open>
  Claim C9. When the overridden target name is not empty and the host equals the target
  name, the status is \<^verbatim>\<open>GRPC_SECURITY_OK\<close> and no error is written, whatever the engine
  says about the certificate.
\<close>

theorem check_call_host_override:
  assumes "overridden_target_name \<noteq> []" and "host = target_name"
  shows "\<exists>peer. grpc_shallow_peer_from_ssl_auth_context K auth_context = Inr peer \<and>
     call_host_status S M peer host target_name overridden_target_name = GRPC_SECURITY_OK \<and>
     grpc_ssl_check_call_host K S M host target_name overridden_target_name auth_context
       on_call_host_checked err = Inr (True, err)"
proof -
  have "call_host_status S M peer host target_name overridden_target_name = GRPC_SECURITY_OK"
    for peer
    using assms by (simp add: call_host_status_def)
  then show ?thesis
    using check_call_host_eq [of K auth_context S M host target_name overridden_target_name
        on_call_host_checked err]
    by auto
qed

text \<open>
  With an engine that rejects every name, the host still passes through the override.
\<close>

theorem check_call_host_override_witness:
  "''good.example'' \<noteq> [] \<and>
   grpc_ssl_host_matches_name spec_splitHostPort matches_no_name
     \<lparr>properties =
        [Some \<lparr>tsi_name = Some ''x509_subject_alternative_name'', tsi_value = ''good.example''\<rparr>,
         None],
      property_count = 1\<rparr> ''other.example'' = 0 \<and>
   grpc_ssl_check_call_host grpc_names spec_splitHostPort matches_no_name ''other.example''
     ''other.example'' ''good.example'' ctx_good_example () GRPC_ERROR_NONE =
     Inr (True, GRPC_ERROR_NONE)"
proof -
  have a: "''good.example'' \<noteq> []" by simp
  have b: "grpc_ssl_host_matches_name spec_splitHostPort matches_no_name peer ''other.example'' = 0"
    for peer
    by (simp add: host_matches_name_eq matches_no_name_def)
  show ?thesis
    using check_call_host_override [OF a refl, of grpc_names ctx_good_example spec_splitHostPort
        matches_no_name "''other.example''" "()" GRPC_ERROR_NONE] b
    by auto
qed

section \<open>Default SSL root store: proofs\<close>

text \<open>
  \<^verbatim>\<open>ComputePemRootCerts\<close> by cases on what the sources yield.
\<close>

lemma compute_cases:
  "ComputePemRootCerts E =
     (if configured_roots E \<noteq> []
      then Inr (configured_roots E, [LoadConfiguredFile (grpc_default_ssl_roots_file_path E)])
      else
        let l1 = (if grpc_default_ssl_roots_file_path E = [] then []
                  else [LoadConfiguredFile (grpc_default_ssl_roots_file_path E)])
        in case ssl_roots_override_cb E of
             Some (GRPC_SSL_ROOTS_OVERRIDE_OK, None) \<Rightarrow> Inl AssertionFailed
           | Some (GRPC_SSL_ROOTS_OVERRIDE_OK, Some pem) \<Rightarrow>
               Inr (pem @ [CHR 0x00], l1 @ [OverrideCallback])
           | cb \<Rightarrow>
               let l2 = l1 @ (if cb = None then [] else [OverrideCallback]) in
               if system_roots E \<noteq> [] then Inr (system_roots E, l2 @ [SystemRootCerts])
               else
                 let l3 = l2 @ (if grpc_not_use_system_ssl_roots E then [] else [SystemRootCerts]) in
                 if cb \<noteq> None \<and> fst (the cb) = GRPC_SSL_ROOTS_OVERRIDE_FAIL_PERMANENTLY
                 then Inr ([], l3)
                 else Inr (installed_roots E, l3 @ [LoadInstalledFile (installed_roots_path E)]))"
  by (auto simp: ComputePemRootCerts_def configured_roots_def system_roots_def installed_roots_def
      Let_def split: option.splits grpc_ssl_roots_override_result.splits prod.splits)

lemma compute_total:
  "(\<exists>result log. ComputePemRootCerts E = Inr (result, log)) =
   (\<not> (configured_roots E = [] \<and>
        ssl_roots_override_cb E = Some (GRPC_SSL_ROOTS_OVERRIDE_OK, None)))"
  by (auto simp: compute_cases Let_def
      split: option.splits grpc_ssl_roots_override_result.splits prod.splits)

lemma compute_result:
  "ComputePemRootCerts E = Inr (result, log) \<Longrightarrow>
   result =
     (if configured_roots E \<noteq> [] then configured_roots E
      else if override_roots E \<noteq> [] then override_roots E
      else if system_roots E \<noteq> [] then system_roots E
      else if map_option fst (ssl_roots_override_cb E) = Some GRPC_SSL_ROOTS_OVERRIDE_FAIL_PERMANENTLY
      then []
      else installed_roots E)"
  by (auto simp: compute_cases override_roots_def Let_def
      split: option.splits grpc_ssl_roots_override_result.splits prod.splits if_splits)

lemma compute_log_order:
  "ComputePemRootCerts E = Inr (result, log) \<Longrightarrow>
   subseq log [LoadConfiguredFile (grpc_default_ssl_roots_file_path E), OverrideCallback,
               SystemRootCerts, LoadInstalledFile (installed_roots_path E)]"
  by (auto simp: compute_cases Let_def
      split: option.splits grpc_ssl_roots_override_result.splits prod.splits if_splits)

lemma compute_log_override:
  "ComputePemRootCerts E = Inr (result, log) \<Longrightarrow> OverrideCallback \<in> set log \<Longrightarrow>
   configured_roots E = []"
  by (auto simp: compute_cases Let_def
      split: option.splits grpc_ssl_roots_override_result.splits prod.splits if_splits)

lemma compute_log_system:
  "ComputePemRootCerts E = Inr (result, log) \<Longrightarrow> SystemRootCerts \<in> set log \<Longrightarrow>
   configured_roots E = [] \<and> override_roots E = [] \<and> \<not> grpc_not_use_system_ssl_roots E"
  by (auto simp: compute_cases override_roots_def system_roots_def Let_def
      split: option.splits grpc_ssl_roots_override_result.splits prod.splits if_splits)

lemma compute_log_installed:
  "ComputePemRootCerts E = Inr (result, log) \<Longrightarrow>
   LoadInstalledFile p \<in> set log \<Longrightarrow>
   configured_roots E = [] \<and> override_roots E = [] \<and> system_roots E = [] \<and>
   map_option fst (ssl_roots_override_cb E) \<noteq> Some GRPC_SSL_ROOTS_OVERRIDE_FAIL_PERMANENTLY"
  by (auto simp: compute_cases override_roots_def Let_def
      split: option.splits grpc_ssl_roots_override_result.splits prod.splits if_splits)

lemma compute_installed_instance:
  "grpc_default_ssl_roots_file_path E = [] \<Longrightarrow> ssl_roots_override_cb E = None \<Longrightarrow>
   \<not> grpc_not_use_system_ssl_roots E \<Longrightarrow> LoadSystemRootCerts E = [] \<Longrightarrow>
   ComputePemRootCerts E =
     Inr (installed_roots E, [SystemRootCerts, LoadInstalledFile (installed_roots_path E)])"
  by (simp add: compute_cases configured_roots_def system_roots_def)

text \<open>
  Claim C2. \<^verbatim>\<open>ComputePemRootCerts\<close> asks its sources in the order configured file,
  override callback, OS trust store, installed file. The callback is asked only when the
  configured file gave no bytes; the OS trust store only when neither of the first two
  gave bytes and the flag does not disable it; the installed file only when none of the
  first three gave bytes. The result is what the first source with bytes yields. It
  returns unless the callback reports success with a null pointer. With an empty
  configured path, no callback, and an enabled OS trust store that yields nothing, the
  result is what loading the installed file yields.
\<close>

theorem root_fallback_order:
  "(\<forall>result log. ComputePemRootCerts E = Inr (result, log) \<longrightarrow>
      subseq log [LoadConfiguredFile (grpc_default_ssl_roots_file_path E), OverrideCallback,
                  SystemRootCerts, LoadInstalledFile (installed_roots_path E)] \<and>
      (OverrideCallback \<in> set log \<longrightarrow> configured_roots E = []) \<and>
      (SystemRootCerts \<in> set log \<longrightarrow>
         configured_roots E = [] \<and> override_roots E = [] \<and>
         \<not> grpc_not_use_system_ssl_roots E) \<and>
      (LoadInstalledFile (installed_roots_path E) \<in> set log \<longrightarrow>
         configured_roots E = [] \<and> override_roots E = [] \<and> system_roots E = []) \<and>
      result =
        (if configured_roots E \<noteq> [] then configured_roots E
         else if override_roots E \<noteq> [] then override_roots E
         else if system_roots E \<noteq> [] then system_roots E
         else if map_option fst (ssl_roots_override_cb E) =
                   Some GRPC_SSL_ROOTS_OVERRIDE_FAIL_PERMANENTLY
         then []
         else installed_roots E)) \<and>
   (\<exists>result log. ComputePemRootCerts E = Inr (result, log)) =
     (\<not> (configured_roots E = [] \<and>
          ssl_roots_override_cb E = Some (GRPC_SSL_ROOTS_OVERRIDE_OK, None))) \<and>
   (grpc_default_ssl_roots_file_path E = [] \<and> ssl_roots_override_cb E = None \<and>
    \<not> grpc_not_use_system_ssl_roots E \<and> LoadSystemRootCerts E = [] \<longrightarrow>
    ComputePemRootCerts E =
      Inr (installed_roots E, [SystemRootCerts, LoadInstalledFile (installed_roots_path E)]))"
  using compute_log_order [of E] compute_log_override [of E] compute_log_system [of E]
    compute_log_installed [of E _ _ "installed_roots_path E"] compute_result [of E]
    compute_total [of E] compute_installed_instance [of E]
  by blast

text \<open>
  On a callback that fails (not permanently) all three later sources are asked, and
  with no callback the installed file's bytes are the result.
\<close>

theorem root_fallback_order_witness:
  "ComputePemRootCerts environment_override_fail =
     Inr (''INSTALLED-ROOTS'' @ [CHR 0x00],
          [OverrideCallback, SystemRootCerts, LoadInstalledFile ''/usr/share/grpc/roots.pem'']) \<and>
   configured_roots environment_override_fail = [] \<and>
   override_roots environment_override_fail = [] \<and>
   system_roots environment_override_fail = [] \<and>
   grpc_default_ssl_roots_file_path example_environment = [] \<and>
   ssl_roots_override_cb example_environment = None \<and>
   \<not> grpc_not_use_system_ssl_roots example_environment \<and>
   LoadSystemRootCerts example_environment = [] \<and>
   ComputePemRootCerts example_environment =
     Inr (''INSTALLED-ROOTS'' @ [CHR 0x00],
          [SystemRootCerts, LoadInstalledFile ''/usr/share/grpc/roots.pem''])"
proof -
  have c: "ComputePemRootCerts environment_override_fail =
     Inr (''INSTALLED-ROOTS'' @ [CHR 0x00],
          [OverrideCallback, SystemRootCerts, LoadInstalledFile ''/usr/share/grpc/roots.pem''])"
    by (simp add: environment_override_fail_def example_environment_def ComputePemRootCerts_def
        load_file_or_empty_def)
  have ip: "installed_roots_path environment_override_fail = ''/usr/share/grpc/roots.pem''"
    by (simp add: environment_override_fail_def example_environment_def)
  have m: "OverrideCallback \<in> set [OverrideCallback, SystemRootCerts,
              LoadInstalledFile ''/usr/share/grpc/roots.pem'']"
    "SystemRootCerts \<in> set [OverrideCallback, SystemRootCerts,
              LoadInstalledFile ''/usr/share/grpc/roots.pem'']"
    "LoadInstalledFile (installed_roots_path environment_override_fail) \<in>
       set [OverrideCallback, SystemRootCerts, LoadInstalledFile ''/usr/share/grpc/roots.pem'']"
    by (simp_all add: ip)
  have a: "configured_roots environment_override_fail = [] \<and>
           override_roots environment_override_fail = [] \<and>
           system_roots environment_override_fail = []"
    using root_fallback_order [of environment_override_fail] c m by blast
  have h: "grpc_default_ssl_roots_file_path example_environment = []"
    "ssl_roots_override_cb example_environment = None"
    "\<not> grpc_not_use_system_ssl_roots example_environment"
    "LoadSystemRootCerts example_environment = []"
    by (simp_all add: example_environment_def)
  have i: "installed_roots example_environment = ''INSTALLED-ROOTS'' @ [CHR 0x00]"
    "installed_roots_path example_environment = ''/usr/share/grpc/roots.pem''"
    by (simp_all add: installed_roots_def load_file_or_empty_def example_environment_def)
  have b: "ComputePemRootCerts example_environment =
     Inr (''INSTALLED-ROOTS'' @ [CHR 0x00],
          [SystemRootCerts, LoadInstalledFile ''/usr/share/grpc/roots.pem''])"
    using root_fallback_order [of example_environment] h unfolding i by blast
  show ?thesis using c a h b by blast
qed

text \<open>
  Claim C1, as amended. With an empty configured path and a callback that returns
  fail-permanently, the installed file is never loaded: the result is empty when the
  OS trust store is disabled by the flag or yields nothing, whatever the installed file
  holds. Fail-permanently does not skip the OS trust store: when it is enabled, what it
  yields is the result.
\<close>

theorem fail_permanently_roots:
  assumes "grpc_default_ssl_roots_file_path E = []"
    and "ssl_roots_override_cb E = Some (GRPC_SSL_ROOTS_OVERRIDE_FAIL_PERMANENTLY, pem)"
  shows "ComputePemRootCerts E =
           Inr (if grpc_not_use_system_ssl_roots E then [] else LoadSystemRootCerts E,
                OverrideCallback #
                (if grpc_not_use_system_ssl_roots E then [] else [SystemRootCerts]))"
  using assms by (auto simp: compute_cases configured_roots_def system_roots_def Let_def)

text \<open>
  The claim as stated (empty bytes even when the OS trust store has roots) fails: the
  callback fails permanently, the OS trust store is enabled and yields bytes, and these
  bytes are the result.
\<close>

theorem fail_permanently_uses_system_roots:
  "grpc_default_ssl_roots_file_path environment_fail_permanently = [] \<and>
   ssl_roots_override_cb environment_fail_permanently =
     Some (GRPC_SSL_ROOTS_OVERRIDE_FAIL_PERMANENTLY, None) \<and>
   ComputePemRootCerts environment_fail_permanently =
     Inr (''OS-ROOTS'', [OverrideCallback, SystemRootCerts])"
  by (simp add: environment_fail_permanently_def example_environment_def ComputePemRootCerts_def
      load_file_or_empty_def)

text \<open>
  With the OS trust store disabled the result is empty although the installed file is
  there.
\<close>

theorem fail_permanently_roots_witness:
  "grpc_default_ssl_roots_file_path
     (environment_fail_permanently\<lparr>grpc_not_use_system_ssl_roots := True\<rparr>) = [] \<and>
   ssl_roots_override_cb (environment_fail_permanently\<lparr>grpc_not_use_system_ssl_roots := True\<rparr>) =
     Some (GRPC_SSL_ROOTS_OVERRIDE_FAIL_PERMANENTLY, None) \<and>
   installed_roots (environment_fail_permanently\<lparr>grpc_not_use_system_ssl_roots := True\<rparr>) =
     ''INSTALLED-ROOTS'' @ [CHR 0x00] \<and>
   ComputePemRootCerts (environment_fail_permanently\<lparr>grpc_not_use_system_ssl_roots := True\<rparr>) =
     Inr ([], [OverrideCallback])"
proof -
  let ?E = "environment_fail_permanently\<lparr>grpc_not_use_system_ssl_roots := True\<rparr>"
  have p: "grpc_default_ssl_roots_file_path ?E = []"
    by (simp add: environment_fail_permanently_def example_environment_def)
  have c: "ssl_roots_override_cb ?E = Some (GRPC_SSL_ROOTS_OVERRIDE_FAIL_PERMANENTLY, None)"
    by (simp add: environment_fail_permanently_def example_environment_def)
  have i: "installed_roots ?E = ''INSTALLED-ROOTS'' @ [CHR 0x00]"
    by (simp add: installed_roots_def load_file_or_empty_def environment_fail_permanently_def
        example_environment_def)
  show ?thesis
    using fail_permanently_roots [OF p c] p c i by simp
qed

section \<open>Client handshaker factory: proofs\<close>

lemma cipher_suites_keeps_roots:
  "grpc_get_ssl_cipher_suites E w = (s, w') \<Longrightarrow>
   root_store_once w' = root_store_once w \<and> default_pem_root_certs w' = default_pem_root_certs w \<and>
   default_root_store w' = default_root_store w \<and> io_log w' = io_log w"
  by (auto simp: grpc_get_ssl_cipher_suites_def init_cipher_suites_def Let_def split: if_splits)

lemma client_create_eq:
  "\<exists>options w2.
     client_handshaker_factory_create E kp root_certs root_store cache hf w =
       (if fst (tsi_create_ssl_client_handshaker_factory_with_options E options hf) = TSI_OK
        then GRPC_SECURITY_OK else GRPC_SECURITY_ERROR,
        snd (tsi_create_ssl_client_handshaker_factory_with_options E options hf), w2) \<and>
     opt_pem_root_certs options = Some root_certs \<and> opt_root_store options = root_store \<and>
     root_store_once w2 = root_store_once w \<and>
     default_pem_root_certs w2 = default_pem_root_certs w \<and>
     default_root_store w2 = default_root_store w \<and> io_log w2 = io_log w"
proof -
  obtain s w2 where cs: "grpc_get_ssl_cipher_suites E w = (s, w2)" by force
  note keep = cipher_suites_keeps_roots [OF cs]
  define options where "options =
     \<lparr>opt_pem_key_cert_pair =
        (if (case kp of None \<Rightarrow> False
             | Some kc \<Rightarrow> private_key kc \<noteq> None \<and> cert_chain kc \<noteq> None)
         then kp else None),
      opt_pem_root_certs = Some root_certs, opt_root_store = root_store,
      opt_alpn_protocols = fst (grpc_fill_alpn_protocol_strings E),
      opt_num_alpn_protocols = snd (grpc_fill_alpn_protocol_strings E),
      opt_cipher_suites = s, opt_session_cache = cache\<rparr>"
  have "client_handshaker_factory_create E kp root_certs root_store cache hf w =
       (if fst (tsi_create_ssl_client_handshaker_factory_with_options E options hf) = TSI_OK
        then GRPC_SECURITY_OK else GRPC_SECURITY_ERROR,
        snd (tsi_create_ssl_client_handshaker_factory_with_options E options hf), w2)"
    by (simp add: client_handshaker_factory_create_def cs Let_def split_beta
        default_client_handshaker_options_def options_def)
  moreover have "opt_pem_root_certs options = Some root_certs" "opt_root_store options = root_store"
    by (simp_all add: options_def)
  ultimately show ?thesis
    using keep by blast
qed

lemma GetPemRootCerts_None:
  "GetPemRootCerts E w = Inr (None, w') =
     (if root_store_once w then default_pem_root_certs w = [] \<and> w' = w
      else \<exists>log. ComputePemRootCerts E = Inr ([], log) \<and>
             w' = w\<lparr>default_pem_root_certs := [], io_log := io_log w @ log,
                    root_store_once := True\<rparr>)"
  by (auto simp: GetPemRootCerts_def InitRootStore_def InitRootStoreOnce_def Let_def
      split: sum.splits prod.splits if_splits)

text \<open>
  Claim C6. When \<^verbatim>\<open>pem_root_certs\<close> is null and the default roots are empty (the root
  store was initialised with no bytes, or it is initialised by this call and
  \<^verbatim>\<open>ComputePemRootCerts\<close> yields no bytes), the call returns \<^verbatim>\<open>GRPC_SECURITY_ERROR\<close>
  and \<^verbatim>\<open>*handshaker_factory\<close> keeps its content: the engine is not called. When a root
  PEM is supplied, the engine is called with that PEM and a null root store, and the
  default root store is left as it was: not initialised by this call, no source asked.
\<close>

theorem client_factory_roots:
  "(GetPemRootCerts E w = Inr (None, w') \<longrightarrow>
      grpc_ssl_tsi_client_handshaker_factory_init E kp None cache hf w =
        Inr (GRPC_SECURITY_ERROR, hf, w')) \<and>
   (root_store_once w \<and> default_pem_root_certs w = [] \<longrightarrow>
      grpc_ssl_tsi_client_handshaker_factory_init E kp None cache hf w =
        Inr (GRPC_SECURITY_ERROR, hf, w)) \<and>
   (\<not> root_store_once w \<and> ComputePemRootCerts E = Inr ([], log) \<longrightarrow>
      grpc_ssl_tsi_client_handshaker_factory_init E kp None cache hf w =
        Inr (GRPC_SECURITY_ERROR, hf,
             w\<lparr>default_pem_root_certs := [], io_log := io_log w @ log,
               root_store_once := True\<rparr>)) \<and>
   (\<exists>options w2.
      grpc_ssl_tsi_client_handshaker_factory_init E kp (Some pem) cache hf w =
        Inr (if fst (tsi_create_ssl_client_handshaker_factory_with_options E options hf) = TSI_OK
             then GRPC_SECURITY_OK else GRPC_SECURITY_ERROR,
             snd (tsi_create_ssl_client_handshaker_factory_with_options E options hf), w2) \<and>
      opt_pem_root_certs options = Some pem \<and> opt_root_store options = None \<and>
      root_store_once w2 = root_store_once w \<and>
      default_pem_root_certs w2 = default_pem_root_certs w \<and>
      default_root_store w2 = default_root_store w \<and> io_log w2 = io_log w)"
proof -
  have a: "grpc_ssl_tsi_client_handshaker_factory_init E kp None cache hf w =
        Inr (GRPC_SECURITY_ERROR, hf, v)" if "GetPemRootCerts E w = Inr (None, v)" for v
    using that by (simp add: grpc_ssl_tsi_client_handshaker_factory_init_def)
  have a1: "root_store_once w \<and> default_pem_root_certs w = [] \<longrightarrow>
      grpc_ssl_tsi_client_handshaker_factory_init E kp None cache hf w =
        Inr (GRPC_SECURITY_ERROR, hf, w)"
    using a [of w] by (simp add: GetPemRootCerts_None)
  have a2: "\<not> root_store_once w \<and> ComputePemRootCerts E = Inr ([], log) \<longrightarrow>
      grpc_ssl_tsi_client_handshaker_factory_init E kp None cache hf w =
        Inr (GRPC_SECURITY_ERROR, hf,
             w\<lparr>default_pem_root_certs := [], io_log := io_log w @ log,
               root_store_once := True\<rparr>)"
    using a [of "w\<lparr>default_pem_root_certs := [], io_log := io_log w @ log,
                   root_store_once := True\<rparr>"]
    by (simp add: GetPemRootCerts_None)
  have b: "grpc_ssl_tsi_client_handshaker_factory_init E kp (Some pem) cache hf w =
        Inr (client_handshaker_factory_create E kp pem None cache hf w)"
    by (simp add: grpc_ssl_tsi_client_handshaker_factory_init_def)
  show ?thesis
    using a [of w'] a1 a2 client_create_eq [of E kp pem None cache hf w] unfolding b by blast
qed

text \<open>
  No file can be loaded, there is no callback and the OS trust store yields nothing:
  the first call initialises the root store with no bytes and fails; a second call on
  the state it leaves fails again without asking any source; and a call with a PEM of
  its own reaches the engine.
\<close>

theorem client_factory_roots_witness:
  "GetPemRootCerts environment_without_roots initial_process_state =
     Inr (None, initial_process_state
            \<lparr>root_store_once := True,
             io_log := [SystemRootCerts, LoadInstalledFile ''/usr/share/grpc/roots.pem'']\<rparr>) \<and>
   grpc_ssl_tsi_client_handshaker_factory_init environment_without_roots None None None None
       initial_process_state =
     Inr (GRPC_SECURITY_ERROR, None,
          initial_process_state
            \<lparr>root_store_once := True,
             io_log := [SystemRootCerts, LoadInstalledFile ''/usr/share/grpc/roots.pem'']\<rparr>) \<and>
   grpc_ssl_tsi_client_handshaker_factory_init environment_without_roots None None None None
       (initial_process_state
          \<lparr>root_store_once := True,
           io_log := [SystemRootCerts, LoadInstalledFile ''/usr/share/grpc/roots.pem'']\<rparr>) =
     Inr (GRPC_SECURITY_ERROR, None,
          initial_process_state
            \<lparr>root_store_once := True,
             io_log := [SystemRootCerts, LoadInstalledFile ''/usr/share/grpc/roots.pem'']\<rparr>) \<and>
   (\<exists>w2. grpc_ssl_tsi_client_handshaker_factory_init environment_without_roots None
            (Some ''PEM'') None None initial_process_state =
          Inr (GRPC_SECURITY_OK, Some 7, w2) \<and>
          \<not> root_store_once w2 \<and> io_log w2 = [])"
proof -
  let ?w1 = "initial_process_state
            \<lparr>root_store_once := True,
             io_log := [SystemRootCerts, LoadInstalledFile ''/usr/share/grpc/roots.pem'']\<rparr>"
  have g: "GetPemRootCerts environment_without_roots initial_process_state = Inr (None, ?w1)"
    by (simp add: GetPemRootCerts_def InitRootStore_def InitRootStoreOnce_def
        ComputePemRootCerts_def load_file_or_empty_def environment_without_roots_def
        example_environment_def initial_process_state_def)
  have first: "grpc_ssl_tsi_client_handshaker_factory_init environment_without_roots None None
      None None initial_process_state = Inr (GRPC_SECURITY_ERROR, None, ?w1)"
    using client_factory_roots [of environment_without_roots initial_process_state ?w1
        None None None] g
    by blast
  have st: "root_store_once ?w1 \<and> default_pem_root_certs ?w1 = []"
    by (simp add: initial_process_state_def)
  have second: "grpc_ssl_tsi_client_handshaker_factory_init environment_without_roots None None
      None None ?w1 = Inr (GRPC_SECURITY_ERROR, None, ?w1)"
    using client_factory_roots [of environment_without_roots ?w1 _ None None None] st
    by blast
  have eng: "tsi_create_ssl_client_handshaker_factory_with_options environment_without_roots
               options None = (TSI_OK, Some 7)" for options
    by (simp add: environment_without_roots_def example_environment_def)
  have ini: "\<not> root_store_once initial_process_state" "io_log initial_process_state = []"
    by (simp_all add: initial_process_state_def)
  have third: "\<exists>w2. grpc_ssl_tsi_client_handshaker_factory_init environment_without_roots None
            (Some ''PEM'') None None initial_process_state =
          Inr (GRPC_SECURITY_OK, Some 7, w2) \<and>
          \<not> root_store_once w2 \<and> io_log w2 = []"
    using client_factory_roots [of environment_without_roots initial_process_state _ None None
        None _ "''PEM''"] ini
    by (auto simp: eng)
  show ?thesis
    using g first second third by blast
qed

end
